theory Spec2Isabelle
  imports Complex_Main "HOL-Library.AList" "HOL-Library.Product_Lexorder"
begin

section \<open>Python values\<close>

text \<open>
  The scanner (\<^verbatim>\<open>paid_runners_bot.py\<close>) works on decoded JSON: every record is a
  \<^verbatim>\<open>Dict[str, Any]\<close>. A value is \<^verbatim>\<open>None\<close>, a bool, an int, a float, a string, a list
  or a dict. Python ints are unbounded (\<open>int\<close>). A float is modelled by the real number it
  denotes: the floats of this model are the finite ones, and their arithmetic is exact.
  The merge of candidates, whose result depends on how \<^verbatim>\<open>max\<close> treats a NaN, is
  embedded a second time over floats that may be NaN or infinite (section
  \<open>Candidates with non-finite floats\<close>). A dict
  is an association list in insertion order with distinct keys, updated by
  \<open>AList.update\<close> (an existing key keeps its place, a new key goes to the end), which
  is what a Python dict does.
\<close>

datatype pyval =
    PNone
  | PBool bool
  | PInt int
  | PFloat real
  | PStr string
  | PList "pyval list"
  | PDict "(string \<times> pyval) list"

type_synonym pydict = "(string \<times> pyval) list"

text \<open>
  Builtins of Python are not code of the repository and are taken as parameters. On
  strings: \<^verbatim>\<open>s.strip()\<close> and \<^verbatim>\<open>s.lower()\<close> on a string that has a character outside
  ASCII (Unicode decides what is white space there and what a lower-case form is). On
  values: \<^verbatim>\<open>float(s)\<close> on a string (\<open>None\<close> when it raises \<^verbatim>\<open>ValueError\<close>; a string
  that reads as a NaN or an infinity has no float among the finite ones),
  \<^verbatim>\<open>str(x)\<close> on a value that is not already a string, and the format
  \<^verbatim>\<open>f"{x:.nf}"\<close> of a float with \<open>n\<close> decimals.
\<close>

record str_builtins =
  unicode_strip :: "string \<Rightarrow> string"
  unicode_lower :: "string \<Rightarrow> string"

record builtins = str_builtins +
  float_of_str :: "string \<Rightarrow> real option"
  str_of :: "pyval \<Rightarrow> string"
  format_float :: "nat \<Rightarrow> real \<Rightarrow> string"

datatype error = AttributeError | TypeError | OverflowError

text \<open>\<^verbatim>\<open>bool(x)\<close>, the truth value used by \<^verbatim>\<open>or\<close>, \<^verbatim>\<open>not\<close> and \<^verbatim>\<open>if\<close>.\<close>

fun truthy :: "pyval \<Rightarrow> bool" where
  "truthy PNone = False"
| "truthy (PBool b) = b"
| "truthy (PInt i) = (i \<noteq> 0)"
| "truthy (PFloat x) = (x \<noteq> 0)"
| "truthy (PStr s) = (s \<noteq> [])"
| "truthy (PList xs) = (xs \<noteq> [])"
| "truthy (PDict kvs) = (kvs \<noteq> [])"

text \<open>\<^verbatim>\<open>a or b\<close> on values.\<close>

definition py_or :: "pyval \<Rightarrow> pyval \<Rightarrow> pyval" where
  "py_or a b = (if truthy a then a else b)"

text \<open>\<^verbatim>\<open>d.get(k)\<close> and \<^verbatim>\<open>d.get(k, default)\<close> on a dict.\<close>

definition get_default :: "pydict \<Rightarrow> string \<Rightarrow> pyval \<Rightarrow> pyval" where
  "get_default d k dflt = (case map_of d k of None \<Rightarrow> dflt | Some v \<Rightarrow> v)"

definition get :: "pydict \<Rightarrow> string \<Rightarrow> pyval" where
  "get d k = get_default d k PNone"

text \<open>\<^verbatim>\<open>d.update(other)\<close>, returning the updated dict.\<close>

definition dict_update :: "pydict \<Rightarrow> pydict \<Rightarrow> pydict" where
  "dict_update d other = foldl (\<lambda>acc kv. AList.update (fst kv) (snd kv) acc) d other"

text \<open>\<^verbatim>\<open>str(x)\<close>.\<close>

definition py_str :: "builtins \<Rightarrow> pyval \<Rightarrow> string" where
  "py_str bi v = (case v of PStr s \<Rightarrow> s | _ \<Rightarrow> str_of bi v)"

text \<open>
  \<^verbatim>\<open>s.strip()\<close> and \<^verbatim>\<open>s.lower()\<close>. A \<open>char\<close> is a byte and a string is the UTF-8
  encoding of the Python string, so a string is ASCII when every byte is below 128. On
  an ASCII string \<^verbatim>\<open>strip\<close> removes the leading and trailing characters 9 to 13 and
  28 to 32 (those for which \<^verbatim>\<open>isspace\<close> holds) and \<^verbatim>\<open>lower\<close> maps \<^verbatim>\<open>A-Z\<close> to
  \<^verbatim>\<open>a-z\<close>; on any other string the two methods are the builtins.
\<close>

definition is_ascii :: "char \<Rightarrow> bool" where
  "is_ascii c = ((of_char c :: nat) < 128)"

definition py_isspace :: "char \<Rightarrow> bool" where
  "py_isspace c = (let n = (of_char c :: nat) in (9 \<le> n \<and> n \<le> 13) \<or> (28 \<le> n \<and> n \<le> 32))"

definition strip :: "'a str_builtins_scheme \<Rightarrow> string \<Rightarrow> string" where
  "strip bi s =
     (if list_all is_ascii s then rev (dropWhile py_isspace (rev (dropWhile py_isspace s)))
      else unicode_strip bi s)"

definition lower_char :: "char \<Rightarrow> char" where
  "lower_char c =
     (case map_of (zip ''ABCDEFGHIJKLMNOPQRSTUVWXYZ'' ''abcdefghijklmnopqrstuvwxyz'') c of
        None \<Rightarrow> c
      | Some l \<Rightarrow> l)"

definition lower :: "'a str_builtins_scheme \<Rightarrow> string \<Rightarrow> string" where
  "lower bi s = (if list_all is_ascii s then map lower_char s else unicode_lower bi s)"

text \<open>\<^verbatim>\<open>s.replace(",", "")\<close>.\<close>

definition remove_commas :: "string \<Rightarrow> string" where
  "remove_commas s = filter (\<lambda>c. c \<noteq> CHR '','') s"

text \<open>\<^verbatim>\<open>int(x)\<close> on a float: truncation towards zero.\<close>

definition trunc :: "real \<Rightarrow> int" where
  "trunc x = (if 0 \<le> x then \<lfloor>x\<rfloor> else \<lceil>x\<rceil>)"

section \<open>Helpers\<close>

text \<open>
  The conversion of an int to a float, \<^verbatim>\<open>float(i)\<close> and the one that \<^verbatim>\<open>1.0 + i\<close> makes:
  it raises \<^verbatim>\<open>OverflowError\<close> (here \<open>None\<close>) when the int rounds to no double, that is
  from \<open>2 ^ 1024 - 2 ^ 970\<close> on in absolute value.
\<close>

definition int_to_float :: "int \<Rightarrow> real option" where
  "int_to_float i = (if \<bar>i\<bar> < 2 ^ 1024 - 2 ^ 970 then Some (real_of_int i) else None)"

text \<open>
  \<^verbatim>\<open>_safe_float(x, default)\<close>: every exception inside is caught and gives the default.
  A bool is an int for \<^verbatim>\<open>isinstance\<close>.
\<close>

definition safe_float :: "builtins \<Rightarrow> pyval \<Rightarrow> real \<Rightarrow> real" where
  "safe_float bi x dflt =
     (case x of
        PNone \<Rightarrow> dflt
      | PBool b \<Rightarrow> (if b then 1 else 0)
      | PInt i \<Rightarrow> (case int_to_float i of None \<Rightarrow> dflt | Some r \<Rightarrow> r)
      | PFloat r \<Rightarrow> r
      | _ \<Rightarrow>
          (let s = strip bi (py_str bi x) in
           if s = [] then dflt
           else (case float_of_str bi (remove_commas s) of None \<Rightarrow> dflt | Some r \<Rightarrow> r)))"

text \<open>\<^verbatim>\<open>_safe_int(x, default)\<close>.\<close>

definition safe_int :: "builtins \<Rightarrow> pyval \<Rightarrow> int \<Rightarrow> int" where
  "safe_int bi x dflt =
     (case x of
        PNone \<Rightarrow> dflt
      | PBool b \<Rightarrow> (if b then 1 else 0)
      | PInt i \<Rightarrow> i
      | PFloat r \<Rightarrow> trunc r
      | _ \<Rightarrow>
          (let s = strip bi (py_str bi x) in
           if s = [] then dflt
           else (case float_of_str bi s of None \<Rightarrow> dflt | Some r \<Rightarrow> trunc r)))"

text \<open>
  \<^verbatim>\<open>_age_minutes_from_pair_created_at\<close>. The clock \<^verbatim>\<open>_now_utc_ms()\<close> is the
  argument \<open>now_ms\<close>; \<^verbatim>\<open>age_ms\<close> lies between 0 and the clock, far below the ints that
  do not convert to a float.
\<close>

definition age_minutes_from_pair_created_at :: "builtins \<Rightarrow> int \<Rightarrow> pyval \<Rightarrow> real" where
  "age_minutes_from_pair_created_at bi now_ms pair_created_at =
     (let ts = safe_int bi pair_created_at 0 in
      if ts \<le> 0 then 999999
      else (let age_ms = max 0 (now_ms - ts) in real_of_int age_ms / 60000))"

text \<open>\<^verbatim>\<open>_normalize_chain_id\<close>.\<close>

definition CHAIN_ID :: string where
  "CHAIN_ID = ''solana''"

definition normalize_chain_id :: "builtins \<Rightarrow> pyval \<Rightarrow> string" where
  "normalize_chain_id bi chain_id =
     (let c = lower bi (strip bi (py_str bi (py_or chain_id (PStr []))))
      in if c \<in> set [''sol'', ''solana-mainnet'', ''mainnet'', ''sol-mainnet''] then ''solana'' else c)"

section \<open>Scoring\<close>

text \<open>\<^verbatim>\<open>math.log10\<close>.\<close>

definition log10 :: "real \<Rightarrow> real" where
  "log10 x = log 10 x"

text \<open>
  \<^verbatim>\<open>score_pair(row, pump_mode=...)\<close>; the result is the dict of the two scores.
  \<^verbatim>\<open>netbuy\<close> is an int, and \<^verbatim>\<open>1.0 + max(netbuy, 0)\<close> converts it to a float: the line
  raises \<^verbatim>\<open>OverflowError\<close> when the int is too large, and nothing catches it.
\<close>

definition score_pair :: "builtins \<Rightarrow> pydict \<Rightarrow> bool \<Rightarrow> error + pydict" where
  "score_pair bi row pump_mode =
     (let liq = safe_float bi (get row ''liquidityUsd'') 0;
          vol5 = safe_float bi (get row ''vol5m'') 0;
          vol1 = safe_float bi (get row ''vol1h'') 0;
          netbuy = safe_int bi (get row ''netBuy5m'') 0;
          m5pct = safe_float bi (get row ''m5pct'') 0;
          h1pct = safe_float bi (get row ''h1pct'') 0;
          turnover = safe_float bi (get row ''turnover_1h_over_liq'') 0;
          liq_s = log10 (1 + max liq 0);
          vol_s = log10 (1 + max vol1 0)
      in
      case int_to_float (max netbuy 0) of
        None \<Rightarrow> Inl OverflowError
      | Some nb \<Rightarrow>
          (let flow_s = log10 (1 + nb);
               mom = (m5pct * (if pump_mode then 1.15 else 0.85)) + (h1pct * 0.35);
               spike_score =
                 0.55 * max 0 (mom / 10) +
                 0.30 * min 2.5 (turnover * 12) +
                 0.25 * min 2 (flow_s / 2);
               score =
                 0.30 * liq_s +
                 0.25 * vol_s +
                 1.15 * spike_score +
                 (if m5pct > 0 then 0.15 else 0)
           in Inr [(''score'', PFloat score), (''spike_score'', PFloat spike_score)]))"

section \<open>Mode thresholds and filters\<close>

record thresholds =
  min_liq :: real
  min_vol5 :: real
  min_netbuy5 :: real
  max_age_min :: real
  min_score :: real

text \<open>\<^verbatim>\<open>_mode_thresholds(mode, pump_mode=...)\<close>; any other mode name is \<^verbatim>\<open>degen\<close>.\<close>

definition mode_thresholds :: "builtins \<Rightarrow> string \<Rightarrow> bool \<Rightarrow> thresholds" where
  "mode_thresholds bi mode0 pump =
     (let mode = lower bi (strip bi mode0) in
      if mode = ''ultra_early'' then
        \<lparr>min_liq = (if pump then 2500 else 4000),
         min_vol5 = (if pump then 40 else 80),
         min_netbuy5 = (if pump then 0 else 1),
         max_age_min = 240,
         min_score = 0.15\<rparr>
      else if mode = ''early_strict'' then
        \<lparr>min_liq = (if pump then 6000 else 12000),
         min_vol5 = (if pump then 120 else 250),
         min_netbuy5 = (if pump then 1 else 2),
         max_age_min = 24 * 60,
         min_score = 0.45\<rparr>
      else if mode = ''early'' then
        \<lparr>min_liq = (if pump then 3500 else 8000),
         min_vol5 = (if pump then 80 else 160),
         min_netbuy5 = (if pump then 0 else 1),
         max_age_min = 24 * 60,
         min_score = 0.25\<rparr>
      else if mode = ''strict'' then
        \<lparr>min_liq = (if pump then 15000 else 25000),
         min_vol5 = (if pump then 250 else 500),
         min_netbuy5 = (if pump then 2 else 3),
         max_age_min = 7 * 24 * 60,
         min_score = 0.85\<rparr>
      else
        \<lparr>min_liq = (if pump then 2500 else 5000),
         min_vol5 = (if pump then 60 else 120),
         min_netbuy5 = (if pump then 0 else 1),
         max_age_min = 7 * 24 * 60,
         min_score = 0.20\<rparr>)"

text \<open>
  The dataclass \<^verbatim>\<open>ScanOptions\<close>, without the progress callback (it only reports
  progress to the caller).
\<close>

record ScanOptions =
  selected_modes :: "string list"
  top_n :: int
  candidates_max :: int
  anti_dead :: bool
  include_boosts :: bool
  include_profiles :: bool
  include_cto :: bool
  include_ads :: bool
  include_orders :: bool
  unique_per_token :: bool
  trending_filters :: bool
  trending_min_liquidity :: real
  trending_min_vol1h :: real
  trending_min_vol5m :: real
  trending_min_netbuy5m :: int
  spike_score_min :: real
  verbose_debug :: bool
  pump_mode :: bool
  sort_by_spike :: bool
  chain_id :: string

text \<open>\<^verbatim>\<open>_anti_dead_pass(row, opts)\<close>.\<close>

definition anti_dead_pass :: "builtins \<Rightarrow> pydict \<Rightarrow> ScanOptions \<Rightarrow> bool" where
  "anti_dead_pass bi row opts =
     (let liq = safe_float bi (get row ''liquidityUsd'') 0;
          vol5 = safe_float bi (get row ''vol5m'') 0;
          buys5 = safe_int bi (get row ''buys5m'') 0;
          sells5 = safe_int bi (get row ''sells5m'') 0;
          age_min = safe_float bi (get row ''ageMin'') 999999
      in
      if age_min \<le> (if pump_mode opts then 90 else 60) then True
      else
        (let liq_floor = max 1200 (trending_min_liquidity opts * (if pump_mode opts then 0.75 else 0.85)) in
         if liq < liq_floor then False
         else
           (let txns5 = buys5 + sells5;
                vol_floor = max 40 (trending_min_vol5m opts * (if pump_mode opts then 0.75 else 0.85)) in
            if txns5 < (if pump_mode opts then 1 else 2) \<and> vol5 < vol_floor then False
            else if age_min > 10 * 24 * 60 then False
            else True)))"

text \<open>
  The threshold gate of one mode, the body of the loop over \<^verbatim>\<open>opts.selected_modes\<close>
  in \<^verbatim>\<open>run_scan_for_modes\<close>: each failed comparison is a \<^verbatim>\<open>continue\<close>.
\<close>

definition mode_gate :: "builtins \<Rightarrow> pydict \<Rightarrow> string \<Rightarrow> bool \<Rightarrow> bool" where
  "mode_gate bi base_row mode pump =
     (let t = mode_thresholds bi mode pump in
      if safe_float bi (get base_row ''liquidityUsd'') 0 < min_liq t then False
      else if safe_float bi (get base_row ''vol5m'') 0 < min_vol5 t then False
      else if safe_int bi (get base_row ''netBuy5m'') 0 < trunc (min_netbuy5 t) then False
      else if safe_float bi (get base_row ''ageMin'') 0 > max_age_min t then False
      else if safe_float bi (get base_row ''score'') 0 < min_score t then False
      else True)"

text \<open>
  The rows one token emits: a copy of its row for every selected mode whose gate it
  passes, in the order of the modes.
\<close>

definition mode_rows :: "builtins \<Rightarrow> ScanOptions \<Rightarrow> pydict \<Rightarrow> pydict list" where
  "mode_rows bi opts base_row =
     concat (map (\<lambda>mode. if mode_gate bi base_row mode (pump_mode opts)
                          then [AList.update ''mode'' (PStr mode) base_row] else [])
                 (selected_modes opts))"

section \<open>Candidates\<close>

text \<open>Exceptions propagate: the first error of a sequence of steps is its result.\<close>

definition bind_err :: "error + 'a \<Rightarrow> ('a \<Rightarrow> error + 'b) \<Rightarrow> error + 'b" where
  "bind_err m f = (case m of Inl e \<Rightarrow> Inl e | Inr x \<Rightarrow> f x)"

text \<open>
  \<^verbatim>\<open>(v or "").strip()\<close>: only a string has the method, any other truthy value raises
  \<^verbatim>\<open>AttributeError\<close>.
\<close>

definition or_empty_strip :: "'a str_builtins_scheme \<Rightarrow> pyval \<Rightarrow> error + string" where
  "or_empty_strip bi v =
     (case py_or v (PStr []) of PStr s \<Rightarrow> Inr (strip bi s) | _ \<Rightarrow> Inl AttributeError)"

text \<open>
  The sources of the merged record \<^verbatim>\<open>src\<close>: \<^verbatim>\<open>src.get("sources") or []\<close>, a string
  wrapped into a list, then unpacked by \<^verbatim>\<open>*s2\<close>. A dict unpacks to its keys; a number
  is not iterable.
\<close>

definition src_sources :: "pyval \<Rightarrow> error + pyval list" where
  "src_sources v =
     (case py_or v (PList []) of
        PStr s \<Rightarrow> Inr [PStr s]
      | PList xs \<Rightarrow> Inr xs
      | PDict kvs \<Rightarrow> Inr (map (\<lambda>kv. PStr (fst kv)) kvs)
      | _ \<Rightarrow> Inl TypeError)"

text \<open>
  The loop \<^verbatim>\<open>for s in (src.get("source"), *s2): if s and s not in s1: s1.append(s)\<close>
  on \<^verbatim>\<open>s1 = out.get("sources") or []\<close> (a string wrapped into a list). On a list
  it appends the new truthy sources in order. Sources are strings; membership in the list
  is equality of values.

  When \<^verbatim>\<open>s1\<close> is a dict, \<^verbatim>\<open>in\<close> looks a key up, which raises \<^verbatim>\<open>TypeError\<close> on
  a list or a dict (they are not hashable), and a source that is not a key reaches
  \<^verbatim>\<open>append\<close>, which a dict does not have. When \<^verbatim>\<open>s1\<close> is a number, \<^verbatim>\<open>in\<close>
  raises \<^verbatim>\<open>TypeError\<close> at the first truthy source. Without such a source the value
  is stored back unchanged.
\<close>

primrec dict_sources :: "string list \<Rightarrow> pyval list \<Rightarrow> error option" where
  "dict_sources keys [] = None"
| "dict_sources keys (s # ss) =
     (if \<not> truthy s then dict_sources keys ss
      else (case s of
              PList xs \<Rightarrow> Some TypeError
            | PDict kvs \<Rightarrow> Some TypeError
            | PStr k \<Rightarrow> if k \<in> set keys then dict_sources keys ss else Some AttributeError
            | _ \<Rightarrow> Some AttributeError))"

definition merge_sources :: "pyval \<Rightarrow> pyval list \<Rightarrow> error + pyval" where
  "merge_sources v new =
     (let add = (\<lambda>acc s. if truthy s \<and> s \<notin> set acc then acc @ [s] else acc) in
      case py_or v (PList []) of
        PStr s \<Rightarrow> Inr (PList (foldl add [PStr s] new))
      | PList xs \<Rightarrow> Inr (PList (foldl add xs new))
      | PDict kvs \<Rightarrow>
          (case dict_sources (map fst kvs) new of None \<Rightarrow> Inr (PDict kvs) | Some e \<Rightarrow> Inl e)
      | w \<Rightarrow> (if list_all (\<lambda>s. \<not> truthy s) new then Inr w else Inl TypeError))"

text \<open>The table \<^verbatim>\<open>priority\<close> of \<^verbatim>\<open>_merge_candidate\<close>, read with default 0.\<close>

definition priority :: "string \<Rightarrow> nat" where
  "priority s =
     (case map_of [(''boosts'', 3), (''ads'', 2), (''cto'', 1), (''profiles'', 0)] s of
        None \<Rightarrow> 0
      | Some p \<Rightarrow> p)"

text \<open>
  \<^verbatim>\<open>_merge_candidate(dst, src)\<close>, block by block as the source comments them. Each
  block takes the dict \<^verbatim>\<open>out\<close> and returns it updated.

  Priority for primary source.
\<close>

definition merge_primary_source :: "builtins \<Rightarrow> pydict \<Rightarrow> pydict \<Rightarrow> pydict" where
  "merge_primary_source bi out src =
     (let src_primary = get src ''source'';
          dst_primary = get out ''source''
      in if priority (py_str bi src_primary) > priority (py_str bi dst_primary)
         then AList.update ''source'' src_primary out else out)"

text \<open>Boost numbers (max), and the boost type.\<close>

definition merge_boost_numbers :: "builtins \<Rightarrow> pydict \<Rightarrow> pydict \<Rightarrow> pydict" where
  "merge_boost_numbers bi out src =
     (let out1 = AList.update ''boostAmount''
                   (PFloat (max (safe_float bi (get out ''boostAmount'') 0)
                                (safe_float bi (get src ''boostAmount'') 0))) out;
          out2 = AList.update ''boostTotal''
                   (PFloat (max (safe_float bi (get out1 ''boostTotal'') 0)
                                (safe_float bi (get src ''boostTotal'') 0))) out1
      in AList.update ''boostType'' (py_or (get out2 ''boostType'') (get src ''boostType'')) out2)"

text \<open>CTO.\<close>

definition merge_cto :: "pydict \<Rightarrow> pydict \<Rightarrow> pydict" where
  "merge_cto out src =
     AList.update ''isCTO'' (PBool (truthy (get out ''isCTO'') \<or> truthy (get src ''isCTO''))) out"

text \<open>
  Profile: \<^verbatim>\<open>if not out.get(k) and src.get(k): out[k] = src[k]\<close> for each of the five
  keys.
\<close>

definition fill_once :: "pydict \<Rightarrow> pydict \<Rightarrow> string \<Rightarrow> pydict" where
  "fill_once src out k =
     (if \<not> truthy (get out k) \<and> truthy (get src k) then AList.update k (get src k) out else out)"

definition merge_profile :: "pydict \<Rightarrow> pydict \<Rightarrow> pydict" where
  "merge_profile out src =
     foldl (fill_once src) out
       [''profileUrl'', ''profileDescription'', ''profileLinksCount'', ''icon'', ''header'']"

text \<open>
  The whole function. The list of sources, which the Python shares with \<^verbatim>\<open>dst\<close> and
  appends to in place, is the field \<^verbatim>\<open>sources\<close> of the result.
\<close>

definition merge_candidate :: "builtins \<Rightarrow> pydict \<Rightarrow> pydict \<Rightarrow> error + pydict" where
  "merge_candidate bi dst src =
     (if dst = [] then Inr src
      else
        bind_err (src_sources (get src ''sources'')) (\<lambda>s2.
        bind_err (merge_sources (get dst ''sources'') (get src ''source'' # s2)) (\<lambda>s1.
          let out = AList.update ''sources'' s1 dst;
              out = merge_primary_source bi out src;
              out = merge_boost_numbers bi out src;
              out = merge_cto out src;
              out = merge_profile out src
          in Inr out)))"

text \<open>
  \<^verbatim>\<open>_candidate_from_boost_item\<close>, \<^verbatim>\<open>_candidate_from_ad_item\<close> and
  \<^verbatim>\<open>_candidate_from_cto_item\<close>: \<open>Inr None\<close> is the return value \<^verbatim>\<open>None\<close>.
\<close>

definition candidate_from_boost_item :: "builtins \<Rightarrow> pydict \<Rightarrow> error + pydict option" where
  "candidate_from_boost_item bi it =
     (let chain = normalize_chain_id bi (get it ''chainId'') in
      if chain \<noteq> CHAIN_ID then Inr None
      else
        bind_err (or_empty_strip bi (get it ''tokenAddress'')) (\<lambda>ta.
          if ta = [] then Inr None
          else
            (let amount = get_default it ''amount''
                            (get_default it ''boostAmount'' (get_default it ''activeBoosts'' (PInt 0)));
                 total = get_default it ''totalAmount''
                           (get_default it ''boostTotal'' (get_default it ''totalBoosts'' amount));
                 btype = get_default it ''type'' (get it ''boostType'')
             in Inr (Some
               [(''chainId'', PStr chain),
                (''tokenAddress'', PStr ta),
                (''source'', PStr ''boosts''),
                (''sources'', PList [PStr ''boosts'']),
                (''boostAmount'', PFloat (safe_float bi amount 0)),
                (''boostTotal'', PFloat (safe_float bi total 0)),
                (''boostType'', btype),
                (''profileUrl'', py_or (get it ''url'') (PStr []))]))))"

definition candidate_from_ad_item :: "builtins \<Rightarrow> pydict \<Rightarrow> error + pydict option" where
  "candidate_from_ad_item bi it =
     (let chain = normalize_chain_id bi (get it ''chainId'') in
      if chain \<noteq> CHAIN_ID then Inr None
      else
        bind_err (or_empty_strip bi (get it ''tokenAddress'')) (\<lambda>ta.
          if ta = [] then Inr None
          else Inr (Some
            [(''chainId'', PStr chain),
             (''tokenAddress'', PStr ta),
             (''source'', PStr ''ads''),
             (''sources'', PList [PStr ''ads'']),
             (''adType'', get it ''type''),
             (''adDate'', get it ''date''),
             (''adDurationHours'', get it ''durationHours''),
             (''profileUrl'', py_or (get it ''url'') (PStr []))])))"

definition candidate_from_cto_item :: "builtins \<Rightarrow> pydict \<Rightarrow> error + pydict option" where
  "candidate_from_cto_item bi it =
     (let chain = normalize_chain_id bi (get it ''chainId'') in
      if chain \<noteq> CHAIN_ID then Inr None
      else
        bind_err (or_empty_strip bi (get it ''tokenAddress'')) (\<lambda>ta.
          if ta = [] then Inr None
          else Inr (Some
            [(''chainId'', PStr chain),
             (''tokenAddress'', PStr ta),
             (''source'', PStr ''cto''),
             (''sources'', PList [PStr ''cto'']),
             (''isCTO'', PBool True),
             (''profileUrl'', py_or (get it ''url'') (PStr [])),
             (''profileDescription'', py_or (get it ''description'') (PStr [])),
             (''profileLinksCount'',
                (case get it ''links'' of PList ls \<Rightarrow> PInt (int (length ls)) | _ \<Rightarrow> PInt 0))])))"

section \<open>Ranking and deduplication\<close>

text \<open>
  \<^verbatim>\<open>_rank_key(r)\<close>, the closure of \<^verbatim>\<open>run_scan_for_modes\<close>. Tuples compare
  lexicographically.
\<close>

definition rank_key :: "builtins \<Rightarrow> ScanOptions \<Rightarrow> pydict \<Rightarrow> real \<times> real \<times> real" where
  "rank_key bi opts r =
     (let spike = safe_float bi (get r ''spike_score'') 0;
          score = safe_float bi (get r ''score'') 0;
          liq = safe_float bi (get r ''liquidityUsd'') 0
      in (if sort_by_spike opts then spike else score, score, liq))"

text \<open>
  \<^verbatim>\<open>rows.sort(key=_rank_key, reverse=True)\<close>. The sort of Python is stable, and with
  \<^verbatim>\<open>reverse=True\<close> it reverses the list, sorts it ascending and reverses the result, so
  that rows of equal key keep their order. The keys are triples of finite floats, which
  the comparison of Python orders as the reals; the sort of Python promises no order
  when a key holds a NaN.
\<close>

definition sort_rows :: "builtins \<Rightarrow> ScanOptions \<Rightarrow> pydict list \<Rightarrow> pydict list" where
  "sort_rows bi opts rows = rev (sort_key (rank_key bi opts) (rev rows))"

text \<open>A loop whose body may raise: the first error ends it.\<close>

primrec fold_err :: "('s \<Rightarrow> 'a \<Rightarrow> error + 's) \<Rightarrow> 's \<Rightarrow> 'a list \<Rightarrow> error + 's" where
  "fold_err f s [] = Inr s"
| "fold_err f s (x # xs) = (case f s x of Inl e \<Rightarrow> Inl e | Inr s' \<Rightarrow> fold_err f s' xs)"

text \<open>\<^verbatim>\<open>(r.get("tokenAddress") or "").lower()\<close>; only a string has the method.\<close>

definition token_key :: "'a str_builtins_scheme \<Rightarrow> pydict \<Rightarrow> error + string" where
  "token_key bi r =
     (case py_or (get r ''tokenAddress'') (PStr []) of
        PStr s \<Rightarrow> Inr (lower bi s)
      | _ \<Rightarrow> Inl AttributeError)"

text \<open>
  The body of the loop that fills \<^verbatim>\<open>best_per_token\<close>: a row without address is
  skipped, and only the first row of an address is stored.
\<close>

definition best_per_token_add ::
  "'a str_builtins_scheme \<Rightarrow> (string \<times> pydict) list \<Rightarrow> pydict \<Rightarrow> error + (string \<times> pydict) list" where
  "best_per_token_add bi best r =
     bind_err (token_key bi r) (\<lambda>ta.
       if ta = [] then Inr best
       else if map_of best ta = None then Inr (AList.update ta r best)
       else Inr best)"

text \<open>
  The block under \<^verbatim>\<open>if opts.unique_per_token:\<close>, on the sorted rows: the first row of
  every token, sorted again.
\<close>

definition unique_rows :: "builtins \<Rightarrow> ScanOptions \<Rightarrow> pydict list \<Rightarrow> error + pydict list" where
  "unique_rows bi opts rows =
     bind_err (fold_err (best_per_token_add bi) [] rows) (\<lambda>best_per_token.
       Inr (sort_rows bi opts (map snd best_per_token)))"

text \<open>
  Stage 5 of \<^verbatim>\<open>run_scan_for_modes\<close>, ranking, deduplication and trimming:
  \<^verbatim>\<open>rows[: max(1, opts.top_n)]\<close> of the sorted, possibly reduced rows.
\<close>

definition rank_rows :: "builtins \<Rightarrow> ScanOptions \<Rightarrow> pydict list \<Rightarrow> error + pydict list" where
  "rank_rows bi opts rows =
     (let rows1 = sort_rows bi opts rows in
      bind_err (if unique_per_token opts then unique_rows bi opts rows1 else Inr rows1) (\<lambda>rows2.
        Inr (take (nat (max 1 (top_n opts))) rows2)))"



text \<open>
  For the proofs: the address of a row that has one, and the rows that the loop over
  \<^verbatim>\<open>best_per_token\<close> stores, given the addresses it has stored or skips (\<open>seen\<close>):
  the first row of every other address.
\<close>

definition token_of :: "'a str_builtins_scheme \<Rightarrow> pydict \<Rightarrow> string" where
  "token_of bi r = (case token_key bi r of Inl e \<Rightarrow> [] | Inr ta \<Rightarrow> ta)"

fun first_rows :: "'a str_builtins_scheme \<Rightarrow> string set \<Rightarrow> pydict list \<Rightarrow> pydict list" where
  "first_rows bi seen [] = []"
| "first_rows bi seen (r # rs) =
     (if token_of bi r \<in> seen then first_rows bi seen rs
      else r # first_rows bi (insert (token_of bi r) seen) rs)"

section \<open>The scan: collecting candidates\<close>

text \<open>
  The Market Data Provider is outside the scan. Its answers are values: a fetcher returns
  its list of records (empty when the request fails). The fallback lookup also returns the
  HTTP status of its diagnostics, when there is one. The clock is a value too.
\<close>

record provider =
  fetch_token_boosts_latest :: "pydict list"
  fetch_token_boosts_top :: "pydict list"
  fetch_ads_latest :: "pydict list"
  fetch_community_takeovers_latest :: "pydict list"
  fetch_token_profiles_latest :: "pydict list"
  fetch_pairs_for_tokens_batch :: "string list \<Rightarrow> pydict list"
  fetch_token_pairs_fallback :: "string \<Rightarrow> pydict list \<times> int option"
  fetch_orders_for_token :: "string \<Rightarrow> pydict list"
  now_utc_ms :: int

text \<open>\<^verbatim>\<open>v.lower()\<close> on a value: only a string has the method.\<close>

definition str_lower :: "'a str_builtins_scheme \<Rightarrow> pyval \<Rightarrow> error + string" where
  "str_lower bi v = (case v of PStr s \<Rightarrow> Inr (lower bi s) | _ \<Rightarrow> Inl AttributeError)"

text \<open>
  The body of the three collecting loops, for a constructor \<open>ctor\<close>:
  \<^verbatim>\<open>c = ctor(it); if not c: continue; key = c["tokenAddress"].lower();\<close>
  \<^verbatim>\<open>candidates_by_token[key] = _merge_candidate(candidates_by_token.get(key, {}), c)\<close>.
\<close>

definition add_candidate ::
  "builtins \<Rightarrow> (pydict \<Rightarrow> error + pydict option) \<Rightarrow> (string \<times> pydict) list \<Rightarrow> pydict
     \<Rightarrow> error + (string \<times> pydict) list" where
  "add_candidate bi ctor candidates_by_token it =
     bind_err (ctor it) (\<lambda>c.
       case c of
         None \<Rightarrow> Inr candidates_by_token
       | Some c \<Rightarrow>
           if c = [] then Inr candidates_by_token
           else
             bind_err (str_lower bi (get c ''tokenAddress'')) (\<lambda>key.
             bind_err (merge_candidate bi
                         (case map_of candidates_by_token key of None \<Rightarrow> [] | Some d \<Rightarrow> d) c)
               (\<lambda>m. Inr (AList.update key m candidates_by_token))))"

text \<open>
  Stage 1 of \<^verbatim>\<open>run_scan_for_modes\<close>: the table \<^verbatim>\<open>candidates_by_token\<close> and the
  counts of raw records. A source that is not included is not fetched.
\<close>

definition collect_candidates ::
  "builtins \<Rightarrow> ScanOptions \<Rightarrow> provider \<Rightarrow> error + ((string \<times> pydict) list \<times> pydict)" where
  "collect_candidates bi opts prov =
     (let boosts_items =
            (if include_boosts opts
             then fetch_token_boosts_latest prov
                  @ (if pump_mode opts then fetch_token_boosts_top prov else [])
             else []);
          counts0 = [(''boost_items_raw'', PInt (int (length boosts_items)))]
      in
      bind_err (fold_err (add_candidate bi (candidate_from_boost_item bi)) [] boosts_items) (\<lambda>t1.
      bind_err (if include_ads opts
                then fold_err (add_candidate bi (candidate_from_ad_item bi)) t1 (fetch_ads_latest prov)
                else Inr t1) (\<lambda>t2.
      bind_err (if include_cto opts
                then fold_err (add_candidate bi (candidate_from_cto_item bi)) t2
                       (fetch_community_takeovers_latest prov)
                else Inr t2) (\<lambda>t3.
        let counts1 = AList.update ''ads_items_raw''
                        (PInt (if include_ads opts then int (length (fetch_ads_latest prov)) else 0))
                        counts0;
            counts2 = AList.update ''cto_items_raw''
                        (PInt (if include_cto opts
                               then int (length (fetch_community_takeovers_latest prov)) else 0))
                        counts1
        in Inr (t3, counts2)))))"

text \<open>
  \<^verbatim>\<open>_cand_priority\<close>, and the candidates kept: the values of the table, sorted
  descending by priority (stable), the first \<^verbatim>\<open>max(1, opts.candidates_max)\<close> of them.
\<close>

definition cand_priority :: "builtins \<Rightarrow> pydict \<Rightarrow> nat \<times> real" where
  "cand_priority bi c =
     (let src = py_str bi (py_or (get c ''source'') (PStr []));
          p = (case map_of [(''boosts'', 3), (''ads'', 2), (''cto'', 1)] src of
                 None \<Rightarrow> 0 | Some p \<Rightarrow> p)
      in (p, safe_float bi (get c ''boostAmount'') 0))"

definition cut_candidates ::
  "builtins \<Rightarrow> ScanOptions \<Rightarrow> (string \<times> pydict) list \<Rightarrow> pydict list" where
  "cut_candidates bi opts candidates_by_token =
     (let candidates = map snd candidates_by_token;
          candidates = rev (sort_key (cand_priority bi) (rev candidates))
      in take (nat (max 1 (candidates_max opts))) candidates)"

section \<open>The scan: profiles\<close>

text \<open>The entry of \<^verbatim>\<open>profiles_idx\<close> built from a profile record.\<close>

definition profile_entry :: "pydict \<Rightarrow> pydict" where
  "profile_entry p =
     [(''profileUrl'', py_or (get p ''url'') (PStr [])),
      (''profileDescription'', py_or (get p ''description'') (PStr [])),
      (''profileLinksCount'',
         (case get p ''links'' of PList ls \<Rightarrow> PInt (int (length ls)) | _ \<Rightarrow> PInt 0)),
      (''icon'', py_or (get p ''icon'') (PStr [])),
      (''header'', py_or (get p ''header'') (PStr []))]"

definition add_profile ::
  "builtins \<Rightarrow> (string \<times> pydict) list \<Rightarrow> pydict \<Rightarrow> error + (string \<times> pydict) list" where
  "add_profile bi profiles_idx p =
     (let chain = normalize_chain_id bi (get p ''chainId'') in
      if chain \<noteq> CHAIN_ID then Inr profiles_idx
      else
        bind_err (or_empty_strip bi (get p ''tokenAddress'')) (\<lambda>s.
          let ta = lower bi s in
          if ta = [] then Inr profiles_idx
          else Inr (AList.update ta (profile_entry p) profiles_idx)))"

text \<open>
  The enrichment loop over the candidates: the merged candidate replaces the entry of the
  table (the list \<^verbatim>\<open>candidates\<close> itself is not changed).
\<close>

definition enrich_candidate ::
  "builtins \<Rightarrow> (string \<times> pydict) list \<Rightarrow> (string \<times> pydict) list \<Rightarrow> pydict
     \<Rightarrow> error + (string \<times> pydict) list" where
  "enrich_candidate bi profiles_idx candidates_by_token c =
     bind_err (or_empty_strip bi (get c ''tokenAddress'')) (\<lambda>s.
       let ta = lower bi s in
       if ta = [] then Inr candidates_by_token
       else
         (case map_of profiles_idx ta of
            None \<Rightarrow> Inr candidates_by_token
          | Some prof \<Rightarrow>
              bind_err (merge_candidate bi c prof) (\<lambda>c'.
                Inr (AList.update ta c' candidates_by_token))))"

definition enrich_profiles ::
  "builtins \<Rightarrow> ScanOptions \<Rightarrow> provider \<Rightarrow> (string \<times> pydict) list \<Rightarrow> pydict list
     \<Rightarrow> error + (string \<times> pydict) list" where
  "enrich_profiles bi opts prov candidates_by_token candidates =
     bind_err (if include_profiles opts
               then fold_err (add_profile bi) [] (fetch_token_profiles_latest prov)
               else Inr []) (\<lambda>profiles_idx.
       fold_err (enrich_candidate bi profiles_idx) candidates_by_token candidates)"

section \<open>The scan: pairs\<close>

text \<open>
  \<^verbatim>\<open>_chunks(items, n)\<close>, the slices \<^verbatim>\<open>items[i : i + n]\<close> for \<open>i\<close> in
  \<^verbatim>\<open>range(0, len(items), n)\<close>, for a positive \<open>n\<close>; the scan calls it with
  \<open>n = 30\<close>.
\<close>

function chunks :: "'a list \<Rightarrow> nat \<Rightarrow> 'a list list" where
  "chunks items n = (if n = 0 \<or> items = [] then [] else take n items # chunks (drop n items) n)"
  by pat_completeness auto
termination
  by (relation "measure (\<lambda>(items, n). length items)") auto

text \<open>
  \<^verbatim>\<open>(v or {}).get(k)\<close>: any truthy value that is not a dict raises
  \<^verbatim>\<open>AttributeError\<close>.
\<close>

definition sub_get :: "pyval \<Rightarrow> string \<Rightarrow> error + pyval" where
  "sub_get v k =
     (case py_or v (PDict []) of PDict d \<Rightarrow> Inr (get d k) | _ \<Rightarrow> Inl AttributeError)"

text \<open>
  The token addresses of the candidates:
  \<^verbatim>\<open>[c.get("tokenAddress") for c in candidates if c.get("tokenAddress")]\<close>, then
  \<^verbatim>\<open>[str(a).strip() for a in token_addrs if str(a).strip()]\<close>.
\<close>

definition token_addrs_of :: "builtins \<Rightarrow> pydict list \<Rightarrow> string list" where
  "token_addrs_of bi candidates =
     (let token_addrs = map (\<lambda>c. get c ''tokenAddress'')
                          (filter (\<lambda>c. truthy (get c ''tokenAddress'')) candidates)
      in map (\<lambda>a. strip bi (py_str bi a)) (filter (\<lambda>a. strip bi (py_str bi a) \<noteq> []) token_addrs))"

text \<open>
  The address of the base or quote token of a pair, as the grouping loop reads it:
  \<^verbatim>\<open>str((p.get(side) or {}).get("address") or "").strip().lower()\<close>.
\<close>

definition pair_token_address :: "builtins \<Rightarrow> pydict \<Rightarrow> string \<Rightarrow> error + string" where
  "pair_token_address bi p side =
     bind_err (sub_get (get p side) ''address'') (\<lambda>a.
       Inr (lower bi (strip bi (py_str bi (py_or a (PStr []))))))"

text \<open>\<^verbatim>\<open>pairs_by_token.setdefault(k, []).extend(ps)\<close>.\<close>

definition setdefault_extend ::
  "(string \<times> pydict list) list \<Rightarrow> string \<Rightarrow> pydict list \<Rightarrow> (string \<times> pydict list) list" where
  "setdefault_extend pairs_by_token k ps =
     AList.update k ((case map_of pairs_by_token k of None \<Rightarrow> [] | Some old \<Rightarrow> old) @ ps)
       pairs_by_token"

text \<open>The body of the loop that groups the pairs by base and by quote token.\<close>

definition index_pair ::
  "builtins \<Rightarrow> (string \<times> pydict list) list \<Rightarrow> pydict \<Rightarrow> error + (string \<times> pydict list) list" where
  "index_pair bi pairs_by_token p =
     bind_err (pair_token_address bi p ''baseToken'') (\<lambda>base_l.
     bind_err (pair_token_address bi p ''quoteToken'') (\<lambda>quote_l.
       let t1 = (if base_l \<noteq> [] then setdefault_extend pairs_by_token base_l [p]
                 else pairs_by_token);
           t2 = (if quote_l \<noteq> [] then setdefault_extend t1 quote_l [p] else t1)
       in Inr t2))"

text \<open>
  The body of the fallback loop: the state is the index and the list \<^verbatim>\<open>errors\<close>.
\<close>

definition fallback_step ::
  "builtins \<Rightarrow> provider \<Rightarrow> (string \<times> pydict list) list \<times> string list \<Rightarrow> string
     \<Rightarrow> (string \<times> pydict list) list \<times> string list" where
  "fallback_step bi prov st a =
     (let pairs_by_token = fst st;
          errors = snd st;
          pairs_fb = fst (fetch_token_pairs_fallback prov a);
          status = snd (fetch_token_pairs_fallback prov a);
          errors = (case status of
                      None \<Rightarrow> errors
                    | Some code \<Rightarrow>
                        if code \<noteq> 0 \<and> code \<ge> 400
                        then errors @ [''pairs_fallback '' @ take 6 a @ ''.. status=''
                                        @ py_str bi (PInt code)]
                        else errors);
          pairs_by_token = (if pairs_fb \<noteq> [] then setdefault_extend pairs_by_token (lower bi a) pairs_fb
                            else pairs_by_token)
      in (pairs_by_token, errors))"

text \<open>
  Stage 3 of \<^verbatim>\<open>run_scan_for_modes\<close>: the index \<^verbatim>\<open>pairs_by_token\<close>, the list
  \<^verbatim>\<open>errors\<close> and the two counts.
\<close>

definition resolve_pairs ::
  "builtins \<Rightarrow> provider \<Rightarrow> string list
     \<Rightarrow> error + ((string \<times> pydict list) list \<times> string list \<times> pydict)" where
  "resolve_pairs bi prov token_addrs =
     (let all_pairs = concat (map (fetch_pairs_for_tokens_batch prov) (chunks token_addrs 30)) in
      bind_err (fold_err (index_pair bi) [] all_pairs) (\<lambda>pairs_by_token.
        let missing = filter (\<lambda>a. map_of pairs_by_token (lower bi a) = None) token_addrs;
            st = foldl (fallback_step bi prov) (pairs_by_token, [])
                   (take (min 15 (length missing)) missing)
        in Inr (fst st, snd st,
                [(''pairs_returned'', PInt (int (length all_pairs))),
                 (''tokens_missing_from_batch'', PInt (int (length missing)))])))"

section \<open>The scan: metrics\<close>

text \<open>\<^verbatim>\<open>compute_metrics_from_pair(pair)\<close>, with the clock as an argument.\<close>

definition compute_metrics_from_pair :: "builtins \<Rightarrow> int \<Rightarrow> pydict \<Rightarrow> error + pydict" where
  "compute_metrics_from_pair bi now_ms pair =
     bind_err (sub_get (get pair ''liquidity'') ''usd'') (\<lambda>liq_v.
     bind_err (sub_get (get pair ''volume'') ''m5'') (\<lambda>vol5_v.
     bind_err (sub_get (get pair ''volume'') ''h1'') (\<lambda>vol1_v.
     bind_err (sub_get (get pair ''volume'') ''h24'') (\<lambda>vol24_v.
     bind_err (sub_get (get pair ''txns'') ''m5'') (\<lambda>m5.
     bind_err (sub_get m5 ''buys'') (\<lambda>buys_v.
     bind_err (sub_get m5 ''sells'') (\<lambda>sells_v.
     bind_err (sub_get (get pair ''priceChange'') ''m5'') (\<lambda>m5pct_v.
     bind_err (sub_get (get pair ''priceChange'') ''h1'') (\<lambda>h1pct_v.
     bind_err (sub_get (get pair ''priceChange'') ''h6'') (\<lambda>h6pct_v.
     bind_err (sub_get (get pair ''priceChange'') ''h24'') (\<lambda>h24pct_v.
     bind_err (sub_get (get pair ''baseToken'') ''symbol'') (\<lambda>base_symbol.
     bind_err (sub_get (get pair ''baseToken'') ''name'') (\<lambda>base_name.
     bind_err (sub_get (get pair ''baseToken'') ''address'') (\<lambda>base_address.
     bind_err (sub_get (get pair ''quoteToken'') ''symbol'') (\<lambda>quote_symbol.
     bind_err (sub_get (get pair ''quoteToken'') ''address'') (\<lambda>quote_address.
       let liq_usd = safe_float bi liq_v 0;
           fdv = safe_float bi (get pair ''fdv'') 0;
           mcap = safe_float bi (get pair ''marketCap'') 0;
           vol5 = safe_float bi vol5_v 0;
           vol1 = safe_float bi vol1_v 0;
           vol24 = safe_float bi vol24_v 0;
           buys5 = safe_int bi buys_v 0;
           sells5 = safe_int bi sells_v 0;
           net_buy_5m = buys5 - sells5;
           m5pct = safe_float bi m5pct_v 0;
           h1pct = safe_float bi h1pct_v 0;
           h6pct = safe_float bi h6pct_v 0;
           h24pct = safe_float bi h24pct_v 0;
           age_min = age_minutes_from_pair_created_at bi now_ms (get pair ''pairCreatedAt'');
           turnover_1h_over_liq = (if liq_usd > 0 then vol1 / liq_usd else 0)
       in Inr
         [(''pairAddress'', py_or (get pair ''pairAddress'') (PStr [])),
          (''dexId'', py_or (get pair ''dexId'') (PStr [])),
          (''priceUsd'', get pair ''priceUsd''),
          (''liquidityUsd'', PFloat liq_usd),
          (''fdv'', PFloat fdv),
          (''marketCap'', PFloat mcap),
          (''vol5m'', PFloat vol5),
          (''vol1h'', PFloat vol1),
          (''vol24h'', PFloat vol24),
          (''buys5m'', PInt buys5),
          (''sells5m'', PInt sells5),
          (''netBuy5m'', PInt net_buy_5m),
          (''m5pct'', PFloat m5pct),
          (''h1pct'', PFloat h1pct),
          (''h6pct'', PFloat h6pct),
          (''h24pct'', PFloat h24pct),
          (''ageMin'', PFloat age_min),
          (''turnover_1h_over_liq'', PFloat turnover_1h_over_liq),
          (''baseTokenSymbol'', base_symbol),
          (''baseTokenName'', base_name),
          (''baseTokenAddress'', base_address),
          (''quoteTokenSymbol'', quote_symbol),
          (''quoteTokenAddress'', quote_address),
          (''urlDexscreener'',
             (if truthy (get pair ''pairAddress'')
              then PStr (''https://dexscreener.com/solana/'' @ py_str bi (get pair ''pairAddress''))
              else PStr []))]))))))))))))))))"

section \<open>The scan: rows\<close>

text \<open>\<^verbatim>\<open>_trending_reasons(row, opts)\<close>: the reasons of rejection, in order.\<close>

definition trending_reasons :: "builtins \<Rightarrow> pydict \<Rightarrow> ScanOptions \<Rightarrow> string list" where
  "trending_reasons bi row opts =
     (let liq = safe_float bi (get row ''liquidityUsd'') 0;
          vol1 = safe_float bi (get row ''vol1h'') 0;
          vol5 = safe_float bi (get row ''vol5m'') 0;
          netbuy5 = safe_int bi (get row ''netBuy5m'') 0;
          spike_score = safe_float bi (get row ''spike_score'') 0;
          turnover = safe_float bi (get row ''turnover_1h_over_liq'') 0;
          m5pct = safe_float bi (get row ''m5pct'') 0;
          boost_amt = safe_float bi (get row ''boostAmount'') 0
      in
        (if liq < trending_min_liquidity opts
         then [''low_liq:'' @ format_float bi 0 liq] else [])
      @ (if vol1 < trending_min_vol1h opts \<and> vol5 < trending_min_vol5m opts
         then [''low_vol:1h='' @ format_float bi 0 vol1 @ '',5m='' @ format_float bi 0 vol5]
         else [])
      @ (if netbuy5 < trending_min_netbuy5m opts
         then [''low_netbuy:'' @ py_str bi (PInt netbuy5)] else [])
      @ (if spike_score < spike_score_min opts
         then [''low_spike:'' @ format_float bi 3 spike_score] else [])
      @ (if boost_amt > 0 \<and> netbuy5 \<le> 0 \<and> turnover < 0.01
            \<and> spike_score < max (spike_score_min opts) 0.40
         then [''promoted_no_real_buy''] else [])
      @ (if m5pct \<le> 0 \<and> spike_score < max (spike_score_min opts) 0.55
         then [''m5_non_positive''] else []))"

text \<open>
  The choice of the best pair of a token, by liquidity then 24h volume: the body of the
  loop, on the state \<^verbatim>\<open>(best, best_key)\<close>.
\<close>

definition best_pair_step ::
  "builtins \<Rightarrow> pydict option \<times> real \<times> real \<Rightarrow> pydict \<Rightarrow> error + (pydict option \<times> real \<times> real)" where
  "best_pair_step bi st p =
     bind_err (sub_get (get p ''liquidity'') ''usd'') (\<lambda>liq_v.
     bind_err (sub_get (get p ''volume'') ''h24'') (\<lambda>vol24_v.
       let key = (safe_float bi liq_v 0, safe_float bi vol24_v 0) in
       if key > snd st then Inr (Some p, key) else Inr st))"

text \<open>\<^verbatim>\<open>",".join(reasons)\<close>.\<close>

fun join_comma :: "string list \<Rightarrow> string" where
  "join_comma [] = []"
| "join_comma [s] = s"
| "join_comma (s # t # ss) = s @ '','' @ join_comma (t # ss)"

text \<open>
  The row of a token before the scores: symbol and name (those of the quote token when
  the token is the quote of its best pair and not its base), the metrics of the best
  pair, and the fields of the candidate.
\<close>

definition build_base_row ::
  "builtins \<Rightarrow> int \<Rightarrow> (string \<times> pydict) list \<Rightarrow> string \<Rightarrow> pydict \<Rightarrow> error + pydict" where
  "build_base_row bi now_ms candidates_by_token token_addr best =
     (let ta_l = lower bi token_addr in
      bind_err (sub_get (get best ''baseToken'') ''symbol'') (\<lambda>base_symbol.
      bind_err (sub_get (get best ''baseToken'') ''name'') (\<lambda>base_name.
      bind_err (pair_token_address bi best ''baseToken'') (\<lambda>base_l.
      bind_err (if base_l \<noteq> ta_l
                then bind_err (pair_token_address bi best ''quoteToken'') (\<lambda>quote_l.
                       Inr (quote_l = ta_l))
                else Inr False) (\<lambda>is_quote.
      bind_err (if is_quote then sub_get (get best ''quoteToken'') ''symbol'' else Inr PNone)
        (\<lambda>quote_symbol.
      bind_err (if is_quote then sub_get (get best ''quoteToken'') ''name'' else Inr PNone)
        (\<lambda>quote_name.
      bind_err (compute_metrics_from_pair bi now_ms best) (\<lambda>metrics.
        let symbol = py_or base_symbol (PStr []);
            name = py_or base_name (PStr []);
            symbol = (if is_quote then py_or quote_symbol symbol else symbol);
            name = (if is_quote then py_or quote_name name else name);
            base_row = [(''tokenAddress'', PStr token_addr), (''symbol'', symbol), (''name'', name)];
            base_row = dict_update base_row metrics;
            cand = (case map_of candidates_by_token ta_l of None \<Rightarrow> [] | Some c \<Rightarrow> c);
            source = py_or (get cand ''source'') (PStr []);
            base_row = AList.update ''source'' source base_row;
            base_row = AList.update ''sources''
                         (if truthy source then py_or (get cand ''sources'') (PList [source])
                          else PList []) base_row;
            base_row = AList.update ''boostAmount''
                         (PFloat (safe_float bi (get cand ''boostAmount'') 0)) base_row;
            base_row = AList.update ''boostTotal''
                         (PFloat (safe_float bi (get cand ''boostTotal'') 0)) base_row;
            base_row = AList.update ''boostType'' (get cand ''boostType'') base_row;
            base_row = AList.update ''isCTO'' (PBool (truthy (get cand ''isCTO''))) base_row;
            base_row = AList.update ''profileUrl''
                         (py_or (get cand ''profileUrl'')
                            (py_or (get base_row ''profileUrl'') (PStr []))) base_row;
            base_row = AList.update ''profileDescription''
                         (py_or (get cand ''profileDescription'') (PStr [])) base_row;
            base_row = AList.update ''profileLinksCount''
                         (PInt (safe_int bi (get cand ''profileLinksCount'') 0)) base_row;
            base_row = AList.update ''urlGMGN''
                         (if token_addr \<noteq> [] then PStr (''https://gmgn.ai/sol/token/'' @ token_addr)
                          else PStr []) base_row
        in Inr base_row))))))))"

text \<open>
  Stage 4 of \<^verbatim>\<open>run_scan_for_modes\<close> for one token: the state is the list
  \<^verbatim>\<open>rows\<close> and the list \<^verbatim>\<open>why_filtered_list\<close>. The progress callback is left out.
\<close>

definition scan_token ::
  "builtins \<Rightarrow> ScanOptions \<Rightarrow> int \<Rightarrow> (string \<times> pydict) list \<Rightarrow> (string \<times> pydict list) list
     \<Rightarrow> pydict list \<times> pydict list \<Rightarrow> string \<Rightarrow> error + (pydict list \<times> pydict list)" where
  "scan_token bi opts now_ms candidates_by_token pairs_by_token st token_addr =
     (let rows = fst st;
          why_filtered_list = snd st;
          ta_l = lower bi token_addr;
          pairs = (case map_of pairs_by_token ta_l of None \<Rightarrow> [] | Some ps \<Rightarrow> ps)
      in
      if pairs = [] then
        Inr (rows,
             if verbose_debug opts
             then why_filtered_list
                  @ [[(''tokenAddress'', PStr token_addr), (''reason'', PStr ''no_pairs_returned'')]]
             else why_filtered_list)
      else
        bind_err (fold_err (best_pair_step bi) (None, (-1, -1)) pairs) (\<lambda>found.
          case fst found of
            None \<Rightarrow> Inr (rows, why_filtered_list)
          | Some best \<Rightarrow>
              if best = [] then Inr (rows, why_filtered_list)
              else
                bind_err (build_base_row bi now_ms candidates_by_token token_addr best)
                  (\<lambda>base_row.
                  bind_err (score_pair bi base_row (pump_mode opts)) (\<lambda>sc.
                  let base_row = dict_update base_row sc;
                      symbol = get base_row ''symbol''
                  in
                  if anti_dead opts \<and> \<not> anti_dead_pass bi base_row opts then
                    Inr (rows,
                         if verbose_debug opts
                         then why_filtered_list
                              @ [[(''tokenAddress'', PStr token_addr), (''symbol'', symbol),
                                  (''reason'', PStr ''anti_dead'')]]
                         else why_filtered_list)
                  else if trending_filters opts \<and> trending_reasons bi base_row opts \<noteq> [] then
                    Inr (rows,
                         if verbose_debug opts
                         then why_filtered_list
                              @ [[(''tokenAddress'', PStr token_addr), (''symbol'', symbol),
                                  (''reason'',
                                     PStr (join_comma (trending_reasons bi base_row opts)))]]
                         else why_filtered_list)
                  else Inr (rows @ mode_rows bi opts base_row, why_filtered_list)))))"

section \<open>The scan: orders\<close>

text \<open>
  Stage 6, for the finalists: \<^verbatim>\<open>orders_count\<close> and \<^verbatim>\<open>isDexPaid\<close> of a row with an
  address.
\<close>

definition add_orders :: "'a str_builtins_scheme \<Rightarrow> provider \<Rightarrow> pydict \<Rightarrow> error + pydict" where
  "add_orders bi prov r =
     bind_err (or_empty_strip bi (get r ''tokenAddress'')) (\<lambda>ta.
       if ta = [] then Inr r
       else
         (let orders = fetch_orders_for_token prov ta;
              r = AList.update ''orders_count'' (PInt (int (length orders))) r
          in Inr (AList.update ''isDexPaid'' (PBool (orders \<noteq> [])) r)))"

primrec map_err :: "('a \<Rightarrow> error + 'b) \<Rightarrow> 'a list \<Rightarrow> error + 'b list" where
  "map_err f [] = Inr []"
| "map_err f (x # xs) =
     (case f x of
        Inl e \<Rightarrow> Inl e
      | Inr y \<Rightarrow> (case map_err f xs of Inl e \<Rightarrow> Inl e | Inr ys \<Rightarrow> Inr (y # ys)))"

section \<open>The scan: the entry point\<close>

text \<open>
  The options as \<^verbatim>\<open>run_scan_for_modes\<close> builds them from its arguments: the names of
  the modes are trimmed and lower-cased, and the chain is \<^verbatim>\<open>CHAIN_ID\<close>.
\<close>

definition scan_options :: "builtins \<Rightarrow> ScanOptions \<Rightarrow> ScanOptions" where
  "scan_options bi args =
     args\<lparr>selected_modes := map (\<lambda>m. lower bi (strip bi m)) (selected_modes args),
          chain_id := CHAIN_ID\<rparr>"

text \<open>
  The debug record at a return: the counts, and \<^verbatim>\<open>errors[:50]\<close> when there are
  errors. The time stamp, the echo of the options and the diagnostics of the requests
  (\<^verbatim>\<open>api_debug\<close>) are left out of the model.
\<close>

definition with_errors :: "string list \<Rightarrow> pydict \<Rightarrow> pydict" where
  "with_errors errors debug =
     (if errors \<noteq> [] then AList.update ''errors'' (PList (map PStr (take 50 errors))) debug
      else debug)"

text \<open>
  \<^verbatim>\<open>run_scan_for_modes\<close>: the rows and the debug record, or the exception that
  escapes.
\<close>

definition run_scan_for_modes ::
  "builtins \<Rightarrow> provider \<Rightarrow> ScanOptions \<Rightarrow> error + (pydict list \<times> pydict)" where
  "run_scan_for_modes bi prov args =
     (let opts = scan_options bi args in
      bind_err (collect_candidates bi opts prov) (\<lambda>collected.
        let candidates_by_token = fst collected;
            counts = snd collected;
            candidates = cut_candidates bi opts candidates_by_token;
            counts = AList.update ''candidates_unique'' (PInt (int (length candidates))) counts
        in
        if candidates = [] then
          Inr ([], [(''counts'', PDict counts), (''why'', PStr ''no_candidates'')])
        else
          bind_err (enrich_profiles bi opts prov candidates_by_token candidates)
            (\<lambda>candidates_by_token.
          let counts = AList.update ''profiles_raw''
                         (PInt (if include_profiles opts
                                then int (length (fetch_token_profiles_latest prov)) else 0))
                         counts;
              token_addrs = token_addrs_of bi candidates
          in
          bind_err (resolve_pairs bi prov token_addrs) (\<lambda>resolved.
          let pairs_by_token = fst resolved;
              errors = fst (snd resolved);
              counts = dict_update counts (snd (snd resolved))
          in
          bind_err (fold_err (scan_token bi opts (now_utc_ms prov) candidates_by_token
                                pairs_by_token) ([], []) token_addrs) (\<lambda>scanned.
          let rows = fst scanned;
              why_filtered_list = snd scanned;
              counts = AList.update ''rows_after_filters'' (PInt (int (length rows))) counts;
              debug = [(''counts'', PDict counts)];
              debug = (if verbose_debug opts
                       then AList.update ''why_filtered_list''
                              (PList (map PDict (take 400 why_filtered_list))) debug
                       else debug)
          in
          if rows = [] then Inr ([], with_errors errors debug)
          else
            bind_err (rank_rows bi opts rows) (\<lambda>rows.
            bind_err (if include_orders opts then map_err (add_orders bi prov) rows else Inr rows)
              (\<lambda>rows. Inr (rows, with_errors errors debug))))))))"

section \<open>Candidates with non-finite floats\<close>

text \<open>
  The floats of Python include NaN and the two infinities; decoding JSON and
  \<^verbatim>\<open>float(s)\<close> both produce them. What \<^verbatim>\<open>_merge_candidate\<close> stores depends on them:
  \<^verbatim>\<open>max(a, b)\<close> is \<open>b\<close> when \<^verbatim>\<open>b > a\<close> and \<open>a\<close> otherwise, and every comparison with a
  NaN is false, so that \<^verbatim>\<open>max(nan, x)\<close> is NaN and \<^verbatim>\<open>max(x, nan)\<close> is \<open>x\<close>. This
  section embeds the candidate stage a second time, over floats that may be NaN or
  infinite: the values, \<^verbatim>\<open>_safe_float\<close>, \<^verbatim>\<open>_normalize_chain_id\<close>, \<^verbatim>\<open>_merge_candidate\<close>
  and the three constructors of candidates. The definitions follow those of the sections
  above line by line, with the name of the function followed by \<open>_x\<close>; a finite float
  is still the real number it denotes.
\<close>

datatype xfloat = Finite real | NaN | PosInf | NegInf

text \<open>\<^verbatim>\<open>a < b\<close> on floats: false when either is a NaN.\<close>

fun float_less :: "xfloat \<Rightarrow> xfloat \<Rightarrow> bool" where
  "float_less (Finite a) (Finite b) = (a < b)"
| "float_less (Finite a) PosInf = True"
| "float_less NegInf (Finite b) = True"
| "float_less NegInf PosInf = True"
| "float_less a b = False"

text \<open>
  \<^verbatim>\<open>max(a, b)\<close> on two floats: the builtin keeps its first argument and replaces it by
  the second when \<^verbatim>\<open>b > a\<close>.
\<close>

definition py_max :: "xfloat \<Rightarrow> xfloat \<Rightarrow> xfloat" where
  "py_max a b = (if float_less a b then b else a)"

datatype xval =
    XNone
  | XBool bool
  | XInt int
  | XFloat xfloat
  | XStr string
  | XList "xval list"
  | XDict "(string \<times> xval) list"

type_synonym xdict = "(string \<times> xval) list"

text \<open>
  The builtins on these values: \<^verbatim>\<open>float(s)\<close> on a string, which may give a NaN or an
  infinity, and \<^verbatim>\<open>str(x)\<close> on a value that is not a string.
\<close>

record xbuiltins = str_builtins +
  float_of_str_x :: "string \<Rightarrow> xfloat option"
  str_of_x :: "xval \<Rightarrow> string"

text \<open>\<^verbatim>\<open>bool(x)\<close>: a float is false when it is zero, so a NaN is true.\<close>

fun truthy_x :: "xval \<Rightarrow> bool" where
  "truthy_x XNone = False"
| "truthy_x (XBool b) = b"
| "truthy_x (XInt i) = (i \<noteq> 0)"
| "truthy_x (XFloat x) = (x \<noteq> Finite 0)"
| "truthy_x (XStr s) = (s \<noteq> [])"
| "truthy_x (XList xs) = (xs \<noteq> [])"
| "truthy_x (XDict kvs) = (kvs \<noteq> [])"

text \<open>\<^verbatim>\<open>a or b\<close> on values.\<close>

definition py_or_x :: "xval \<Rightarrow> xval \<Rightarrow> xval" where
  "py_or_x a b = (if truthy_x a then a else b)"

text \<open>\<^verbatim>\<open>d.get(k)\<close> and \<^verbatim>\<open>d.get(k, default)\<close> on a dict.\<close>

definition get_default_x :: "xdict \<Rightarrow> string \<Rightarrow> xval \<Rightarrow> xval" where
  "get_default_x d k dflt = (case map_of d k of None \<Rightarrow> dflt | Some v \<Rightarrow> v)"

definition get_x :: "xdict \<Rightarrow> string \<Rightarrow> xval" where
  "get_x d k = get_default_x d k XNone"

text \<open>\<^verbatim>\<open>str(x)\<close>.\<close>

definition py_str_x :: "xbuiltins \<Rightarrow> xval \<Rightarrow> string" where
  "py_str_x bi v = (case v of XStr s \<Rightarrow> s | _ \<Rightarrow> str_of_x bi v)"

text \<open>
  \<^verbatim>\<open>_safe_float(x, default)\<close>: every exception inside is caught and gives the default.
  A bool is an int for \<^verbatim>\<open>isinstance\<close>.
\<close>

definition safe_float_x :: "xbuiltins \<Rightarrow> xval \<Rightarrow> xfloat \<Rightarrow> xfloat" where
  "safe_float_x bi x dflt =
     (case x of
        XNone \<Rightarrow> dflt
      | XBool b \<Rightarrow> Finite (if b then 1 else 0)
      | XInt i \<Rightarrow> (case int_to_float i of None \<Rightarrow> dflt | Some r \<Rightarrow> Finite r)
      | XFloat r \<Rightarrow> r
      | _ \<Rightarrow>
          (let s = strip bi (py_str_x bi x) in
           if s = [] then dflt
           else (case float_of_str_x bi (remove_commas s) of None \<Rightarrow> dflt | Some r \<Rightarrow> r)))"

text \<open>\<^verbatim>\<open>_normalize_chain_id\<close>.\<close>

definition normalize_chain_id_x :: "xbuiltins \<Rightarrow> xval \<Rightarrow> string" where
  "normalize_chain_id_x bi cid =
     (let c = lower bi (strip bi (py_str_x bi (py_or_x cid (XStr []))))
      in if c \<in> set [''sol'', ''solana-mainnet'', ''mainnet'', ''sol-mainnet''] then ''solana'' else c)"

text \<open>
  \<^verbatim>\<open>(v or "").strip()\<close>: only a string has the method, any other truthy value raises
  \<^verbatim>\<open>AttributeError\<close>.
\<close>

definition or_empty_strip_x :: "'a str_builtins_scheme \<Rightarrow> xval \<Rightarrow> error + string" where
  "or_empty_strip_x bi v =
     (case py_or_x v (XStr []) of XStr s \<Rightarrow> Inr (strip bi s) | _ \<Rightarrow> Inl AttributeError)"

text \<open>
  The sources of the merged record \<^verbatim>\<open>src\<close>: \<^verbatim>\<open>src.get("sources") or []\<close>, a string
  wrapped into a list, then unpacked by \<^verbatim>\<open>*s2\<close>. A dict unpacks to its keys; a number
  is not iterable.
\<close>

definition src_sources_x :: "xval \<Rightarrow> error + xval list" where
  "src_sources_x v =
     (case py_or_x v (XList []) of
        XStr s \<Rightarrow> Inr [XStr s]
      | XList xs \<Rightarrow> Inr xs
      | XDict kvs \<Rightarrow> Inr (map (\<lambda>kv. XStr (fst kv)) kvs)
      | _ \<Rightarrow> Inl TypeError)"

text \<open>
  The loop \<^verbatim>\<open>for s in (src.get("source"), *s2): if s and s not in s1: s1.append(s)\<close>
  on \<^verbatim>\<open>s1 = out.get("sources") or []\<close> (a string wrapped into a list). On a list
  it appends the new truthy sources in order. Sources are strings; membership in the list
  is equality of values (on strings, what \<^verbatim>\<open>in\<close> tests).

  When \<^verbatim>\<open>s1\<close> is a dict, \<^verbatim>\<open>in\<close> looks a key up, which raises \<^verbatim>\<open>TypeError\<close> on
  a list or a dict (they are not hashable), and a source that is not a key reaches
  \<^verbatim>\<open>append\<close>, which a dict does not have. When \<^verbatim>\<open>s1\<close> is a number, \<^verbatim>\<open>in\<close>
  raises \<^verbatim>\<open>TypeError\<close> at the first truthy source. Without such a source the value
  is stored back unchanged.
\<close>

primrec dict_sources_x :: "string list \<Rightarrow> xval list \<Rightarrow> error option" where
  "dict_sources_x keys [] = None"
| "dict_sources_x keys (s # ss) =
     (if \<not> truthy_x s then dict_sources_x keys ss
      else (case s of
              XList xs \<Rightarrow> Some TypeError
            | XDict kvs \<Rightarrow> Some TypeError
            | XStr k \<Rightarrow> if k \<in> set keys then dict_sources_x keys ss else Some AttributeError
            | _ \<Rightarrow> Some AttributeError))"

definition merge_sources_x :: "xval \<Rightarrow> xval list \<Rightarrow> error + xval" where
  "merge_sources_x v new =
     (let add = (\<lambda>acc s. if truthy_x s \<and> s \<notin> set acc then acc @ [s] else acc) in
      case py_or_x v (XList []) of
        XStr s \<Rightarrow> Inr (XList (foldl add [XStr s] new))
      | XList xs \<Rightarrow> Inr (XList (foldl add xs new))
      | XDict kvs \<Rightarrow>
          (case dict_sources_x (map fst kvs) new of None \<Rightarrow> Inr (XDict kvs) | Some e \<Rightarrow> Inl e)
      | w \<Rightarrow> (if list_all (\<lambda>s. \<not> truthy_x s) new then Inr w else Inl TypeError))"

text \<open>
  \<^verbatim>\<open>_merge_candidate(dst, src)\<close>, block by block as the source comments them. Each
  block takes the dict \<^verbatim>\<open>out\<close> and returns it updated.

  Priority for primary source.
\<close>

definition merge_primary_source_x :: "xbuiltins \<Rightarrow> xdict \<Rightarrow> xdict \<Rightarrow> xdict" where
  "merge_primary_source_x bi out src =
     (let src_primary = get_x src ''source'';
          dst_primary = get_x out ''source''
      in if priority (py_str_x bi src_primary) > priority (py_str_x bi dst_primary)
         then AList.update ''source'' src_primary out else out)"

text \<open>
  Boost numbers (max), and the boost type: \<^verbatim>\<open>max(_safe_float(out.get(k)), _safe_float(src.get(k)))\<close>,
  the value of \<^verbatim>\<open>out\<close> first.
\<close>

definition merge_boost_numbers_x :: "xbuiltins \<Rightarrow> xdict \<Rightarrow> xdict \<Rightarrow> xdict" where
  "merge_boost_numbers_x bi out src =
     (let out1 = AList.update ''boostAmount''
                   (XFloat (py_max (safe_float_x bi (get_x out ''boostAmount'') (Finite 0))
                                   (safe_float_x bi (get_x src ''boostAmount'') (Finite 0)))) out;
          out2 = AList.update ''boostTotal''
                   (XFloat (py_max (safe_float_x bi (get_x out1 ''boostTotal'') (Finite 0))
                                   (safe_float_x bi (get_x src ''boostTotal'') (Finite 0)))) out1
      in AList.update ''boostType'' (py_or_x (get_x out2 ''boostType'') (get_x src ''boostType'')) out2)"

text \<open>CTO.\<close>

definition merge_cto_x :: "xdict \<Rightarrow> xdict \<Rightarrow> xdict" where
  "merge_cto_x out src =
     AList.update ''isCTO'' (XBool (truthy_x (get_x out ''isCTO'') \<or> truthy_x (get_x src ''isCTO''))) out"

text \<open>
  Profile: \<^verbatim>\<open>if not out.get(k) and src.get(k): out[k] = src[k]\<close> for each of the five
  keys.
\<close>

definition fill_once_x :: "xdict \<Rightarrow> xdict \<Rightarrow> string \<Rightarrow> xdict" where
  "fill_once_x src out k =
     (if \<not> truthy_x (get_x out k) \<and> truthy_x (get_x src k) then AList.update k (get_x src k) out else out)"

definition merge_profile_x :: "xdict \<Rightarrow> xdict \<Rightarrow> xdict" where
  "merge_profile_x out src =
     foldl (fill_once_x src) out
       [''profileUrl'', ''profileDescription'', ''profileLinksCount'', ''icon'', ''header'']"

text \<open>
  The whole function. The list of sources, which the Python shares with \<^verbatim>\<open>dst\<close> and
  appends to in place, is the field \<^verbatim>\<open>sources\<close> of the result.
\<close>

definition merge_candidate_x :: "xbuiltins \<Rightarrow> xdict \<Rightarrow> xdict \<Rightarrow> error + xdict" where
  "merge_candidate_x bi dst src =
     (if dst = [] then Inr src
      else
        bind_err (src_sources_x (get_x src ''sources'')) (\<lambda>s2.
        bind_err (merge_sources_x (get_x dst ''sources'') (get_x src ''source'' # s2)) (\<lambda>s1.
          let out = AList.update ''sources'' s1 dst;
              out = merge_primary_source_x bi out src;
              out = merge_boost_numbers_x bi out src;
              out = merge_cto_x out src;
              out = merge_profile_x out src
          in Inr out)))"

text \<open>
  \<^verbatim>\<open>_candidate_from_boost_item\<close>, \<^verbatim>\<open>_candidate_from_ad_item\<close> and
  \<^verbatim>\<open>_candidate_from_cto_item\<close>: \<open>Inr None\<close> is the return value \<^verbatim>\<open>None\<close>.
\<close>

definition candidate_from_boost_item_x :: "xbuiltins \<Rightarrow> xdict \<Rightarrow> error + xdict option" where
  "candidate_from_boost_item_x bi it =
     (let chain = normalize_chain_id_x bi (get_x it ''chainId'') in
      if chain \<noteq> CHAIN_ID then Inr None
      else
        bind_err (or_empty_strip_x bi (get_x it ''tokenAddress'')) (\<lambda>ta.
          if ta = [] then Inr None
          else
            (let amount = get_default_x it ''amount''
                            (get_default_x it ''boostAmount'' (get_default_x it ''activeBoosts'' (XInt 0)));
                 total = get_default_x it ''totalAmount''
                           (get_default_x it ''boostTotal'' (get_default_x it ''totalBoosts'' amount));
                 btype = get_default_x it ''type'' (get_x it ''boostType'')
             in Inr (Some
               [(''chainId'', XStr chain),
                (''tokenAddress'', XStr ta),
                (''source'', XStr ''boosts''),
                (''sources'', XList [XStr ''boosts'']),
                (''boostAmount'', XFloat (safe_float_x bi amount (Finite 0))),
                (''boostTotal'', XFloat (safe_float_x bi total (Finite 0))),
                (''boostType'', btype),
                (''profileUrl'', py_or_x (get_x it ''url'') (XStr []))]))))"

definition candidate_from_ad_item_x :: "xbuiltins \<Rightarrow> xdict \<Rightarrow> error + xdict option" where
  "candidate_from_ad_item_x bi it =
     (let chain = normalize_chain_id_x bi (get_x it ''chainId'') in
      if chain \<noteq> CHAIN_ID then Inr None
      else
        bind_err (or_empty_strip_x bi (get_x it ''tokenAddress'')) (\<lambda>ta.
          if ta = [] then Inr None
          else Inr (Some
            [(''chainId'', XStr chain),
             (''tokenAddress'', XStr ta),
             (''source'', XStr ''ads''),
             (''sources'', XList [XStr ''ads'']),
             (''adType'', get_x it ''type''),
             (''adDate'', get_x it ''date''),
             (''adDurationHours'', get_x it ''durationHours''),
             (''profileUrl'', py_or_x (get_x it ''url'') (XStr []))])))"

definition candidate_from_cto_item_x :: "xbuiltins \<Rightarrow> xdict \<Rightarrow> error + xdict option" where
  "candidate_from_cto_item_x bi it =
     (let chain = normalize_chain_id_x bi (get_x it ''chainId'') in
      if chain \<noteq> CHAIN_ID then Inr None
      else
        bind_err (or_empty_strip_x bi (get_x it ''tokenAddress'')) (\<lambda>ta.
          if ta = [] then Inr None
          else Inr (Some
            [(''chainId'', XStr chain),
             (''tokenAddress'', XStr ta),
             (''source'', XStr ''cto''),
             (''sources'', XList [XStr ''cto'']),
             (''isCTO'', XBool True),
             (''profileUrl'', py_or_x (get_x it ''url'') (XStr [])),
             (''profileDescription'', py_or_x (get_x it ''description'') (XStr [])),
             (''profileLinksCount'',
                (case get_x it ''links'' of XList ls \<Rightarrow> XInt (int (length ls)) | _ \<Rightarrow> XInt 0))])))"

section \<open>Concrete inputs\<close>

text \<open>
  The defaults of the keyword arguments of \<^verbatim>\<open>run_scan_for_modes\<close>; the selected modes
  have no default.
\<close>

definition default_options :: "string list \<Rightarrow> ScanOptions" where
  "default_options modes =
     \<lparr>selected_modes = modes, top_n = 20, candidates_max = 250, anti_dead = True,
      include_boosts = True, include_profiles = True, include_cto = True, include_ads = False,
      include_orders = False, unique_per_token = True, trending_filters = True,
      trending_min_liquidity = 15000, trending_min_vol1h = 1000, trending_min_vol5m = 500,
      trending_min_netbuy5m = 2, spike_score_min = 0.25, verbose_debug = False,
      pump_mode = False, sort_by_spike = True, chain_id = CHAIN_ID\<rparr>"

text \<open>
  Builtins for the evaluation of examples whose values are all numbers or strings of the
  expected type: no string parses as a float, and \<^verbatim>\<open>str\<close> of a non-string and the
  formats are empty.
\<close>

definition builtins0 :: builtins where
  "builtins0 =
     \<lparr>unicode_strip = (\<lambda>s. s), unicode_lower = (\<lambda>s. s),
      float_of_str = (\<lambda>s. None), str_of = (\<lambda>v. []), format_float = (\<lambda>n x. [])\<rparr>"

text \<open>
  Scenario A of the specification: the metrics of the token, and its row once
  \<^verbatim>\<open>base_row.update(score_pair(base_row, pump_mode=True))\<close> has run.
\<close>

definition scenario_A_metrics :: pydict where
  "scenario_A_metrics =
     [(''liquidityUsd'', PFloat 20000), (''vol5m'', PFloat 300), (''vol1h'', PFloat 1500),
      (''netBuy5m'', PInt 3), (''m5pct'', PFloat 5), (''h1pct'', PFloat 2),
      (''ageMin'', PFloat 30), (''turnover_1h_over_liq'', PFloat 0.075)]"

definition scenario_A_row :: "builtins \<Rightarrow> pydict" where
  "scenario_A_row bi =
     (case score_pair bi scenario_A_metrics True of
        Inl e \<Rightarrow> scenario_A_metrics
      | Inr sc \<Rightarrow> dict_update scenario_A_metrics sc)"

text \<open>The two scores of scenario A, by the formulas of the specification.\<close>

definition scenario_A_spike_score :: real where
  "scenario_A_spike_score = 0.55 * 0.645 + 0.30 * 0.9 + 0.25 * min 2 (log10 4 / 2)"

definition scenario_A_score :: real where
  "scenario_A_score =
     0.30 * log10 20001 + 0.25 * log10 1501 + 1.15 * scenario_A_spike_score + 0.15"

text \<open>The metrics of scenario A with a count of net buys beyond the floats.\<close>

definition overflow_metrics :: pydict where
  "overflow_metrics = AList.update ''netBuy5m'' (PInt (10 ^ 400)) scenario_A_metrics"

text \<open>
  Scenario C of the specification: promotion records of one token, from the boosts, ads
  and community-takeover sources, and a record of another chain.
\<close>

definition scenario_C_boost_item :: pydict where
  "scenario_C_boost_item =
     [(''chainId'', PStr ''solana''), (''tokenAddress'', PStr ''TokenC''), (''amount'', PInt 50),
      (''totalAmount'', PInt 80)]"

definition scenario_C_ad_item :: pydict where
  "scenario_C_ad_item =
     [(''chainId'', PStr ''solana''), (''tokenAddress'', PStr ''tokenc''), (''type'', PStr ''tokenAd'')]"

definition scenario_C_cto_item :: pydict where
  "scenario_C_cto_item =
     [(''chainId'', PStr ''SOL''), (''tokenAddress'', PStr '' TokenC '')]"

definition ethereum_item :: pydict where
  "ethereum_item = [(''chainId'', PStr ''ethereum''), (''tokenAddress'', PStr ''0xabc'')]"

text \<open>
  Scenario D of the specification: \<open>top_n = 5\<close> and 20 qualifying rows. Four tokens
  with the metrics of scenario A each qualify for the five modes under \<open>pump_mode\<close>.
\<close>

definition scenario_D_options :: ScanOptions where
  "scenario_D_options =
     (default_options [''ultra_early'', ''early_strict'', ''early'', ''strict'', ''degen''])
       \<lparr>top_n := 5, pump_mode := True\<rparr>"

definition scenario_D_row :: "string \<Rightarrow> pydict" where
  "scenario_D_row t = AList.update ''tokenAddress'' (PStr t) (scenario_A_row builtins0)"

definition scenario_D_rows :: "pydict list" where
  "scenario_D_rows =
     concat (map (\<lambda>t. mode_rows builtins0 scenario_D_options (scenario_D_row t))
               [''toka'', ''tokb'', ''tokc'', ''tokd''])"

text \<open>
  Scenario B of the specification: a provider whose every answer is empty; and, for the
  other half of it, a provider with the records of scenario C, scanned with the three
  promotion sources disabled.
\<close>

definition empty_provider :: provider where
  "empty_provider =
     \<lparr>fetch_token_boosts_latest = [], fetch_token_boosts_top = [], fetch_ads_latest = [],
      fetch_community_takeovers_latest = [], fetch_token_profiles_latest = [],
      fetch_pairs_for_tokens_batch = (\<lambda>addrs. []),
      fetch_token_pairs_fallback = (\<lambda>a. ([], None)),
      fetch_orders_for_token = (\<lambda>a. []), now_utc_ms = 0\<rparr>"

definition scenario_C_provider :: provider where
  "scenario_C_provider =
     empty_provider
       \<lparr>fetch_token_boosts_latest := [scenario_C_boost_item],
        fetch_ads_latest := [scenario_C_ad_item],
        fetch_community_takeovers_latest := [scenario_C_cto_item]\<rparr>"

definition no_sources_options :: ScanOptions where
  "no_sources_options =
     (default_options [''degen'', ''strict''])
       \<lparr>include_boosts := False, include_ads := False, include_cto := False\<rparr>"

text \<open>
  The records of scenario C over values with non-finite floats, the candidates the
  constructors build from them, and a boosts record of the same token whose amount is
  the float NaN (the JSON literal \<^verbatim>\<open>NaN\<close>), with its candidate.
\<close>

definition xbuiltins0 :: xbuiltins where
  "xbuiltins0 =
     \<lparr>unicode_strip = (\<lambda>s. s), unicode_lower = (\<lambda>s. s),
      float_of_str_x = (\<lambda>s. None), str_of_x = (\<lambda>v. [])\<rparr>"

definition scenario_C_boost_item_x :: xdict where
  "scenario_C_boost_item_x =
     [(''chainId'', XStr ''solana''), (''tokenAddress'', XStr ''TokenC''), (''amount'', XInt 50),
      (''totalAmount'', XInt 80)]"

definition scenario_C_ad_item_x :: xdict where
  "scenario_C_ad_item_x =
     [(''chainId'', XStr ''solana''), (''tokenAddress'', XStr ''tokenc''), (''type'', XStr ''tokenAd'')]"

definition scenario_C_cto_item_x :: xdict where
  "scenario_C_cto_item_x =
     [(''chainId'', XStr ''SOL''), (''tokenAddress'', XStr '' TokenC '')]"

definition nan_boost_item_x :: xdict where
  "nan_boost_item_x =
     [(''chainId'', XStr ''solana''), (''tokenAddress'', XStr ''TokenC''),
      (''amount'', XFloat NaN), (''totalAmount'', XInt 80)]"

definition scenario_C_boost_x :: xdict where
  "scenario_C_boost_x =
     [(''chainId'', XStr ''solana''), (''tokenAddress'', XStr ''TokenC''),
      (''source'', XStr ''boosts''), (''sources'', XList [XStr ''boosts'']),
      (''boostAmount'', XFloat (Finite 50)), (''boostTotal'', XFloat (Finite 80)),
      (''boostType'', XNone), (''profileUrl'', XStr [])]"

definition scenario_C_ad_x :: xdict where
  "scenario_C_ad_x =
     [(''chainId'', XStr ''solana''), (''tokenAddress'', XStr ''tokenc''),
      (''source'', XStr ''ads''), (''sources'', XList [XStr ''ads'']),
      (''adType'', XStr ''tokenAd''), (''adDate'', XNone),
      (''adDurationHours'', XNone), (''profileUrl'', XStr [])]"

definition scenario_C_cto_x :: xdict where
  "scenario_C_cto_x =
     [(''chainId'', XStr ''solana''), (''tokenAddress'', XStr ''TokenC''),
      (''source'', XStr ''cto''), (''sources'', XList [XStr ''cto'']),
      (''isCTO'', XBool True), (''profileUrl'', XStr []),
      (''profileDescription'', XStr []), (''profileLinksCount'', XInt 0)]"

definition nan_boost_x :: xdict where
  "nan_boost_x =
     [(''chainId'', XStr ''solana''), (''tokenAddress'', XStr ''TokenC''),
      (''source'', XStr ''boosts''), (''sources'', XList [XStr ''boosts'']),
      (''boostAmount'', XFloat NaN), (''boostTotal'', XFloat (Finite 80)),
      (''boostType'', XNone), (''profileUrl'', XStr [])]"

section \<open>Scoring: the formulas\<close>

lemma int_to_float_Some:
  "\<bar>i\<bar> < 2 ^ 1024 - 2 ^ 970 \<Longrightarrow> int_to_float i = Some (real_of_int i)"
  by (simp add: int_to_float_def)

lemma int_to_float_None:
  "2 ^ 1024 - 2 ^ 970 \<le> i \<Longrightarrow> int_to_float i = None"
  by (simp add: int_to_float_def)

lemma int_to_float_small: "int_to_float 0 = Some 0" "int_to_float 3 = Some 3"
  by (simp_all add: int_to_float_def)

text \<open>
  C1, as stated, fails: \<^verbatim>\<open>netBuy5m\<close> is an int of any size (the difference of two
  counts of the payload), and on the metrics record of scenario A with
  \<^verbatim>\<open>netBuy5m = 10 ** 400\<close> the call \<^verbatim>\<open>score_pair(row, pump_mode=True)\<close> returns no scores:
  \<^verbatim>\<open>1.0 + max(netbuy, 0)\<close> raises \<^verbatim>\<open>OverflowError\<close>.
\<close>

theorem score_pair_overflow_counterexample:
  "get overflow_metrics ''netBuy5m'' = PInt (10 ^ 400) \<and>
   score_pair builtins0 overflow_metrics True = Inl OverflowError"
proof -
  have "(2::int) ^ 1024 - 2 ^ 970 \<le> 10 ^ 400"
    by simp
  then have "int_to_float (max (10 ^ 400) 0) = None"
    by (simp add: int_to_float_None)
  then show ?thesis
    by (simp add: overflow_metrics_def scenario_A_metrics_def score_pair_def safe_int_def
        get_def get_default_def Let_def)
qed

text \<open>
  C1, amended. On a metrics record (float fields hold floats, \<^verbatim>\<open>netBuy5m\<close> holds an int,
  as \<^verbatim>\<open>compute_metrics_from_pair\<close> builds it) whose \<^verbatim>\<open>netBuy5m\<close> is below
  \<open>2 ^ 1024 - 2 ^ 970\<close>, so that it converts to a float, \<^verbatim>\<open>score_pair\<close> returns exactly
  \<open>spike_score = 0.55 * max(0, mom/10) + 0.30 * min(2.5, turnover * 12) + 0.25 * min(2.0, flow_s/2)\<close>
  and \<open>score = 0.30 * liq_s + 0.25 * vol_s + 1.15 * spike_score + (0.15 if m5pct > 0 else 0)\<close>,
  with \<open>mom\<close>, \<open>liq_s\<close>, \<open>vol_s\<close> and \<open>flow_s\<close> as the specification defines them, for
  either value of \<open>pump_mode\<close>.
\<close>

theorem score_pair_formula:
  assumes "get row ''liquidityUsd'' = PFloat liquidity"
    and "get row ''vol1h'' = PFloat vol1h"
    and "get row ''netBuy5m'' = PInt netBuy5m"
    and "get row ''m5pct'' = PFloat m5pct"
    and "get row ''h1pct'' = PFloat h1pct"
    and "get row ''turnover_1h_over_liq'' = PFloat turnover_1h_over_liq"
    and "netBuy5m < 2 ^ 1024 - 2 ^ 970"
  shows "score_pair bi row pump =
     Inr (let liq_s = log10 (1 + max liquidity 0);
              vol_s = log10 (1 + max vol1h 0);
              flow_s = log10 (1 + max (real_of_int netBuy5m) 0);
              mom = m5pct * (if pump then 1.15 else 0.85) + h1pct * 0.35;
              spike_score = 0.55 * max 0 (mom / 10) + 0.30 * min 2.5 (turnover_1h_over_liq * 12)
                            + 0.25 * min 2.0 (flow_s / 2);
              score = 0.30 * liq_s + 0.25 * vol_s + 1.15 * spike_score
                      + (if m5pct > 0 then 0.15 else 0)
          in [(''score'', PFloat score), (''spike_score'', PFloat spike_score)])"
proof -
  have "real_of_int (max netBuy5m 0) = max (real_of_int netBuy5m) 0"
    by (simp add: max_def)
  moreover have "\<bar>max netBuy5m 0\<bar> < 2 ^ 1024 - 2 ^ 970"
    using assms(7) by (simp add: max_def)
  then have "int_to_float (max netBuy5m 0) = Some (real_of_int (max netBuy5m 0))"
    by (rule int_to_float_Some)
  ultimately show ?thesis
    using assms(1-6) by (simp add: score_pair_def safe_float_def safe_int_def Let_def)
qed

theorem score_pair_formula_witness:
  "get scenario_A_metrics ''liquidityUsd'' = PFloat 20000 \<and>
   get scenario_A_metrics ''vol1h'' = PFloat 1500 \<and>
   get scenario_A_metrics ''netBuy5m'' = PInt 3 \<and>
   get scenario_A_metrics ''m5pct'' = PFloat 5 \<and>
   get scenario_A_metrics ''h1pct'' = PFloat 2 \<and>
   get scenario_A_metrics ''turnover_1h_over_liq'' = PFloat 0.075 \<and>
   (3::int) < 2 ^ 1024 - 2 ^ 970 \<and>
   score_pair builtins0 scenario_A_metrics True =
     Inr [(''score'', PFloat scenario_A_score), (''spike_score'', PFloat scenario_A_spike_score)]"
  using score_pair_formula [where row = scenario_A_metrics and liquidity = 20000
      and ?vol1h = 1500 and ?netBuy5m = 3 and ?m5pct = 5 and ?h1pct = 2
      and ?turnover_1h_over_liq = "0.075" and bi = builtins0 and pump = True]
  by (simp add: scenario_A_metrics_def get_def get_default_def Let_def
      scenario_A_score_def scenario_A_spike_score_def)

section \<open>Scenario A\<close>

lemma log10_ge_of_power: "10 ^ n \<le> x \<Longrightarrow> real n \<le> log10 x"
  unfolding log10_def by (rule le_log_of_power) simp_all

lemma log10_20001: "4 \<le> log10 20001"
  using log10_ge_of_power [of 4 20001] by simp

lemma log10_1501: "3 \<le> log10 1501"
  using log10_ge_of_power [of 3 1501] by simp

lemma log10_4: "0 \<le> log10 4"
  using log10_ge_of_power [of 0 4] by simp

lemma score_pair_scenario_A:
  "score_pair bi scenario_A_metrics True =
     Inr [(''score'', PFloat scenario_A_score), (''spike_score'', PFloat scenario_A_spike_score)]"
  by (simp add: scenario_A_metrics_def score_pair_def get_def get_default_def
      safe_float_def safe_int_def int_to_float_small Let_def scenario_A_score_def
      scenario_A_spike_score_def)

lemma scenario_A_row_score:
  "get (scenario_A_row bi) ''score'' = PFloat scenario_A_score"
  unfolding scenario_A_row_def score_pair_scenario_A
  by (simp add: scenario_A_metrics_def get_def get_default_def dict_update_def)

lemma scenario_A_score_bound: "2.8 < scenario_A_score"
proof -
  have "0 \<le> min 2 (log10 4 / 2)"
    using log10_4 by simp
  then have "0.62475 \<le> scenario_A_spike_score"
    by (simp add: scenario_A_spike_score_def)
  then show ?thesis
    using log10_20001 log10_1501 by (simp add: scenario_A_score_def)
qed

lemma scenario_A_fields:
  "get (scenario_A_row bi) ''liquidityUsd'' = PFloat 20000"
  "get (scenario_A_row bi) ''vol5m'' = PFloat 300"
  "get (scenario_A_row bi) ''netBuy5m'' = PInt 3"
  "get (scenario_A_row bi) ''ageMin'' = PFloat 30"
  unfolding scenario_A_row_def score_pair_scenario_A
  by (simp_all add: scenario_A_metrics_def get_def get_default_def dict_update_def)

lemma thresholds_pump:
  "mode_thresholds bi ''strict'' True =
     \<lparr>min_liq = 15000, min_vol5 = 250, min_netbuy5 = 2, max_age_min = 10080, min_score = 0.85\<rparr>"
  "mode_thresholds bi ''early_strict'' True =
     \<lparr>min_liq = 6000, min_vol5 = 120, min_netbuy5 = 1, max_age_min = 1440, min_score = 0.45\<rparr>"
  "mode_thresholds bi ''degen'' True =
     \<lparr>min_liq = 2500, min_vol5 = 60, min_netbuy5 = 0, max_age_min = 10080, min_score = 0.20\<rparr>"
  by (simp_all add: mode_thresholds_def lower_def strip_def py_isspace_def lower_char_def is_ascii_def)

lemma scenario_A_gate:
  assumes "min_liq (mode_thresholds bi m True) \<le> 20000"
    and "min_vol5 (mode_thresholds bi m True) \<le> 300"
    and "trunc (min_netbuy5 (mode_thresholds bi m True)) \<le> 3"
    and "30 \<le> max_age_min (mode_thresholds bi m True)"
    and "min_score (mode_thresholds bi m True) \<le> 2.8"
  shows "mode_gate bi (scenario_A_row bi) m True"
proof -
  have "\<not> scenario_A_score < min_score (mode_thresholds bi m True)"
    using assms(5) scenario_A_score_bound by linarith
  with assms(1-4) show ?thesis
    by (simp add: mode_gate_def Let_def scenario_A_fields scenario_A_row_score
        safe_float_def safe_int_def)
qed

lemma scenario_A_strict: "mode_gate bi (scenario_A_row bi) ''strict'' True"
  by (rule scenario_A_gate) (simp_all add: thresholds_pump trunc_def)

text \<open>
  C2, as stated: the token of scenario A qualifies for \<^verbatim>\<open>early_strict\<close> and
  \<^verbatim>\<open>degen\<close> but not for \<^verbatim>\<open>strict\<close>. This is false: the gate of \<^verbatim>\<open>strict\<close>
  passes it too.
\<close>

theorem scenario_A_not_strict_counterexample:
  "\<not> (mode_gate builtins0 (scenario_A_row builtins0) ''early_strict'' True \<and>
      mode_gate builtins0 (scenario_A_row builtins0) ''degen'' True \<and>
      \<not> mode_gate builtins0 (scenario_A_row builtins0) ''strict'' True)"
  using scenario_A_strict [of builtins0] by simp

text \<open>
  C2, amended: with \<open>pump_mode = true\<close> the token of scenario A qualifies for
  \<^verbatim>\<open>early_strict\<close>, for \<^verbatim>\<open>degen\<close> and for \<^verbatim>\<open>strict\<close>: its score, computed by the
  scoring formulas, is above 2.8 and so above the \<open>min_score\<close> 0.85 of \<^verbatim>\<open>strict\<close>.
\<close>

theorem scenario_A_qualifies:
  "mode_gate bi (scenario_A_row bi) ''early_strict'' True \<and>
   mode_gate bi (scenario_A_row bi) ''degen'' True \<and>
   mode_gate bi (scenario_A_row bi) ''strict'' True \<and>
   min_score (mode_thresholds bi ''strict'' True) = 0.85 \<and>
   get (scenario_A_row bi) ''score'' = PFloat scenario_A_score \<and>
   2.8 < scenario_A_score"
proof -
  have "mode_gate bi (scenario_A_row bi) ''early_strict'' True"
    by (rule scenario_A_gate) (simp_all add: thresholds_pump trunc_def)
  moreover have "mode_gate bi (scenario_A_row bi) ''degen'' True"
    by (rule scenario_A_gate) (simp_all add: thresholds_pump trunc_def)
  moreover have "mode_gate bi (scenario_A_row bi) ''strict'' True"
    by (rule scenario_A_strict)
  ultimately show ?thesis
    using scenario_A_score_bound by (simp add: thresholds_pump scenario_A_row_score)
qed

section \<open>The anti-dead prefilter\<close>

text \<open>
  C8. A row whose \<^verbatim>\<open>ageMin\<close> is at most 60 passes the anti-dead prefilter, whatever
  the options (\<open>pump_mode\<close>, the trending thresholds) and the other fields of the row.
\<close>

theorem anti_dead_young:
  "safe_float bi (get row ''ageMin'') 999999 \<le> 60 \<Longrightarrow> anti_dead_pass bi row opts"
  by (simp add: anti_dead_pass_def Let_def)

theorem anti_dead_young_witness:
  "safe_float builtins0 (get [(''ageMin'', PFloat 60), (''liquidityUsd'', PFloat 0)] ''ageMin'') 999999 \<le> 60 \<and>
   anti_dead_pass builtins0 [(''ageMin'', PFloat 60), (''liquidityUsd'', PFloat 0)] (default_options [''strict''])"
  using anti_dead_young [of builtins0 "[(''ageMin'', PFloat 60), (''liquidityUsd'', PFloat 0)]"
      "default_options [''strict'']"]
  by (simp add: get_def get_default_def safe_float_def)

section \<open>The age of a pair\<close>

lemma trunc_nonpos: "x \<le> 0 \<Longrightarrow> trunc x \<le> 0"
proof -
  assume "x \<le> 0"
  then have "\<lceil>x\<rceil> \<le> 0" and "0 \<le> x \<Longrightarrow> \<lfloor>x\<rfloor> \<le> 0"
    by (simp_all add: ceiling_le_iff floor_le_iff)
  then show ?thesis
    by (simp add: trunc_def)
qed

lemma age_minutes_sentinel:
  "safe_int bi v 0 \<le> 0 \<Longrightarrow> age_minutes_from_pair_created_at bi now_ms v = 999999"
  by (simp add: age_minutes_from_pair_created_at_def)

lemma age_minutes_positive:
  "0 < safe_int bi v 0 \<Longrightarrow>
   age_minutes_from_pair_created_at bi now_ms v
     = real_of_int (max 0 (now_ms - safe_int bi v 0)) / 60000"
  by (simp add: age_minutes_from_pair_created_at_def Let_def)

lemma age_minutes_nonneg: "0 \<le> age_minutes_from_pair_created_at bi now_ms v"
  by (simp add: age_minutes_from_pair_created_at_def Let_def)

lemma safe_int_unparsed:
  "float_of_str bi (strip bi s) = None \<Longrightarrow> safe_int bi (PStr s) 0 = 0"
  "float_of_str bi (strip bi (py_str bi (PList xs))) = None \<Longrightarrow> safe_int bi (PList xs) 0 = 0"
  "float_of_str bi (strip bi (py_str bi (PDict kvs))) = None \<Longrightarrow> safe_int bi (PDict kvs) 0 = 0"
  by (simp_all add: safe_int_def py_str_def Let_def)

text \<open>
  C9. The age derived from a creation timestamp is never negative. When the timestamp
  coerces (by \<^verbatim>\<open>_safe_int\<close>) to a positive integer \<open>ts\<close> the age is
  \<open>max(0, now_ms - ts) / 60000\<close>; otherwise it is the sentinel 999999, in particular
  when the timestamp is missing (\<^verbatim>\<open>None\<close>), zero or negative (int or float), or a
  string, list or dict that does not parse as a number.
\<close>

theorem age_minutes_nonneg_sentinel:
  "0 \<le> age_minutes_from_pair_created_at bi now_ms v \<and>
   (0 < safe_int bi v 0 \<longrightarrow>
      age_minutes_from_pair_created_at bi now_ms v
        = real_of_int (max 0 (now_ms - safe_int bi v 0)) / 60000) \<and>
   (safe_int bi v 0 \<le> 0 \<longrightarrow> age_minutes_from_pair_created_at bi now_ms v = 999999) \<and>
   age_minutes_from_pair_created_at bi now_ms PNone = 999999 \<and>
   (n \<le> 0 \<longrightarrow> age_minutes_from_pair_created_at bi now_ms (PInt n) = 999999) \<and>
   (x \<le> 0 \<longrightarrow> age_minutes_from_pair_created_at bi now_ms (PFloat x) = 999999) \<and>
   (float_of_str bi (strip bi s) = None \<longrightarrow>
      age_minutes_from_pair_created_at bi now_ms (PStr s) = 999999) \<and>
   (float_of_str bi (strip bi (py_str bi (PList xs))) = None \<longrightarrow>
      age_minutes_from_pair_created_at bi now_ms (PList xs) = 999999) \<and>
   (float_of_str bi (strip bi (py_str bi (PDict kvs))) = None \<longrightarrow>
      age_minutes_from_pair_created_at bi now_ms (PDict kvs) = 999999)"
proof (intro conjI impI)
  show "0 \<le> age_minutes_from_pair_created_at bi now_ms v"
    by (rule age_minutes_nonneg)
  show "age_minutes_from_pair_created_at bi now_ms PNone = 999999"
    by (rule age_minutes_sentinel) (simp add: safe_int_def)
  show "age_minutes_from_pair_created_at bi now_ms (PInt n) = 999999" if "n \<le> 0"
    by (rule age_minutes_sentinel) (simp add: safe_int_def that)
  show "age_minutes_from_pair_created_at bi now_ms (PFloat x) = 999999" if "x \<le> 0"
    by (rule age_minutes_sentinel) (simp add: safe_int_def trunc_nonpos that)
  show "age_minutes_from_pair_created_at bi now_ms (PStr s) = 999999"
    if "float_of_str bi (strip bi s) = None"
    by (rule age_minutes_sentinel) (simp add: safe_int_unparsed that)
  show "age_minutes_from_pair_created_at bi now_ms (PList xs) = 999999"
    if "float_of_str bi (strip bi (py_str bi (PList xs))) = None"
    by (rule age_minutes_sentinel) (simp add: safe_int_unparsed that)
  show "age_minutes_from_pair_created_at bi now_ms (PDict kvs) = 999999"
    if "float_of_str bi (strip bi (py_str bi (PDict kvs))) = None"
    by (rule age_minutes_sentinel) (simp add: safe_int_unparsed that)
qed (simp_all add: age_minutes_sentinel age_minutes_positive)

theorem age_minutes_nonneg_sentinel_witness:
  "0 < safe_int builtins0 (PInt 60000) 0 \<and>
   age_minutes_from_pair_created_at builtins0 120000 (PInt 60000) = 1 \<and>
   safe_int builtins0 PNone 0 \<le> 0 \<and>
   (-5::int) \<le> 0 \<and>
   age_minutes_from_pair_created_at builtins0 120000 (PInt (-5)) = 999999 \<and>
   (-1.5::real) \<le> 0 \<and>
   age_minutes_from_pair_created_at builtins0 120000 (PFloat (-1.5)) = 999999 \<and>
   float_of_str builtins0 (strip builtins0 ''soon'') = None \<and>
   age_minutes_from_pair_created_at builtins0 120000 (PStr ''soon'') = 999999 \<and>
   float_of_str builtins0 (strip builtins0 (py_str builtins0 (PList []))) = None \<and>
   age_minutes_from_pair_created_at builtins0 120000 (PList []) = 999999 \<and>
   float_of_str builtins0 (strip builtins0 (py_str builtins0 (PDict []))) = None \<and>
   age_minutes_from_pair_created_at builtins0 120000 (PDict []) = 999999"
  using age_minutes_nonneg_sentinel [where bi = builtins0 and now_ms = 120000
      and v = "PInt 60000" and n = "-5" and x = "-1.5" and s = "''soon''" and xs = "[]" and kvs = "[]"]
    age_minutes_nonneg_sentinel [where bi = builtins0 and now_ms = 120000
      and v = PNone and n = "-5" and x = "-1.5" and s = "''soon''" and xs = "[]" and kvs = "[]"]
  by (simp add: builtins0_def safe_int_def)

section \<open>Merging candidates\<close>

lemma get_update: "get (AList.update k v d) k' = (if k' = k then v else get d k')"
  by (simp add: get_def get_default_def update_conv')

lemma get_Cons: "get ((k, v) # d) k' = (if k' = k then v else get d k')"
  by (simp add: get_def get_default_def)

lemmas string_eval = strip_def lower_def lower_char_def py_isspace_def is_ascii_def

text \<open>
  The maximum of Python: commutative on floats that are not NaN, and stable when the
  second argument is compared again.
\<close>

lemma py_max_commute: "a \<noteq> NaN \<Longrightarrow> b \<noteq> NaN \<Longrightarrow> py_max a b = py_max b a"
  by (cases a; cases b) (auto simp: py_max_def)

lemma py_max_again: "py_max (py_max a b) b = py_max a b"
  by (cases a; cases b) (auto simp: py_max_def)

lemma py_max_NaN: "py_max NaN b = NaN" "py_max (Finite x) NaN = Finite x"
  by (simp_all add: py_max_def)

lemma get_update_x: "get_x (AList.update k v d) k' = (if k' = k then v else get_x d k')"
  by (simp add: get_x_def get_default_x_def update_conv')

lemma get_Cons_x: "get_x ((k, v) # d) k' = (if k' = k then v else get_x d k')"
  by (simp add: get_x_def get_default_x_def)

lemma get_Nil_x: "get_x [] k = XNone"
  by (simp add: get_x_def get_default_x_def)

lemma update_not_Nil: "AList.update k v d \<noteq> []"
  by (cases d) auto

lemma get_fill_once_x: "k' \<noteq> k \<Longrightarrow> get_x (fill_once_x src out k) k' = get_x out k'"
  by (simp add: fill_once_x_def get_update_x)

lemma get_foldl_fill_once_x:
  "k' \<notin> set ks \<Longrightarrow> get_x (foldl (fill_once_x src) out ks) k' = get_x out k'"
  by (induction ks arbitrary: out) (auto simp: get_fill_once_x)

lemma get_merge_profile_x:
  "k \<notin> set [''profileUrl'', ''profileDescription'', ''profileLinksCount'', ''icon'', ''header'']
   \<Longrightarrow> get_x (merge_profile_x out src) k = get_x out k"
  unfolding merge_profile_x_def by (rule get_foldl_fill_once_x)

lemma get_merge_cto_x:
  "get_x (merge_cto_x out src) k =
     (if k = ''isCTO'' then XBool (truthy_x (get_x out ''isCTO'') \<or> truthy_x (get_x src ''isCTO''))
      else get_x out k)"
  by (simp add: merge_cto_x_def get_update_x)

lemma get_merge_boost_numbers_x:
  "get_x (merge_boost_numbers_x bi out src) ''boostAmount'' =
     XFloat (py_max (safe_float_x bi (get_x out ''boostAmount'') (Finite 0))
             (safe_float_x bi (get_x src ''boostAmount'') (Finite 0)))"
  "get_x (merge_boost_numbers_x bi out src) ''boostTotal'' =
     XFloat (py_max (safe_float_x bi (get_x out ''boostTotal'') (Finite 0))
             (safe_float_x bi (get_x src ''boostTotal'') (Finite 0)))"
  "k \<notin> set [''boostAmount'', ''boostTotal'', ''boostType''] \<Longrightarrow>
     get_x (merge_boost_numbers_x bi out src) k = get_x out k"
  by (simp_all add: merge_boost_numbers_x_def Let_def get_update_x)

lemma get_merge_primary_source_x:
  "k \<noteq> ''source'' \<Longrightarrow> get_x (merge_primary_source_x bi out src) k = get_x out k"
  "get_x (merge_primary_source_x bi out src) ''source'' =
     (if priority (py_str_x bi (get_x src ''source'')) > priority (py_str_x bi (get_x out ''source''))
      then get_x src ''source'' else get_x out ''source'')"
  by (simp_all add: merge_primary_source_x_def Let_def get_update_x)

lemma merge_candidate_Inr_x:
  assumes "dst \<noteq> []" and "merge_candidate_x bi dst src = Inr out"
  obtains s1 s2 where "src_sources_x (get_x src ''sources'') = Inr s2"
    and "merge_sources_x (get_x dst ''sources'') (get_x src ''source'' # s2) = Inr s1"
    and "out = merge_profile_x (merge_cto_x (merge_boost_numbers_x bi
                 (merge_primary_source_x bi (AList.update ''sources'' s1 dst) src) src) src) src"
proof -
  obtain s2 where s2: "src_sources_x (get_x src ''sources'') = Inr s2"
    using assms by (cases "src_sources_x (get_x src ''sources'')") (simp_all add: merge_candidate_x_def bind_err_def)
  obtain s1 where s1: "merge_sources_x (get_x dst ''sources'') (get_x src ''source'' # s2) = Inr s1"
    using assms s2
    by (cases "merge_sources_x (get_x dst ''sources'') (get_x src ''source'' # s2)")
       (simp_all add: merge_candidate_x_def bind_err_def)
  have "out = merge_profile_x (merge_cto_x (merge_boost_numbers_x bi
                 (merge_primary_source_x bi (AList.update ''sources'' s1 dst) src) src) src) src"
    using assms by (simp add: merge_candidate_x_def bind_err_def s1 s2 Let_def)
  with s1 s2 that show thesis by blast
qed

lemma foldl_fill_once_not_Nil_x: "out \<noteq> [] \<Longrightarrow> foldl (fill_once_x src) out ks \<noteq> []"
  by (induction ks arbitrary: out) (auto simp: fill_once_x_def update_not_Nil)

lemma merge_profile_not_Nil_x: "merge_profile_x out src \<noteq> [] \<or> out = []"
  unfolding merge_profile_x_def using foldl_fill_once_not_Nil_x by blast

lemma merge_candidate_fields_x:
  assumes "dst \<noteq> []" and "merge_candidate_x bi dst src = Inr out"
  shows "get_x out ''boostAmount'' =
           XFloat (py_max (safe_float_x bi (get_x dst ''boostAmount'') (Finite 0))
             (safe_float_x bi (get_x src ''boostAmount'') (Finite 0)))"
    and "get_x out ''boostTotal'' =
           XFloat (py_max (safe_float_x bi (get_x dst ''boostTotal'') (Finite 0))
             (safe_float_x bi (get_x src ''boostTotal'') (Finite 0)))"
    and "get_x out ''isCTO'' = XBool (truthy_x (get_x dst ''isCTO'') \<or> truthy_x (get_x src ''isCTO''))"
    and "out \<noteq> []"
proof -
  from assms obtain s1 where out: "out = merge_profile_x (merge_cto_x (merge_boost_numbers_x bi
                 (merge_primary_source_x bi (AList.update ''sources'' s1 dst) src) src) src) src"
    by (rule merge_candidate_Inr_x)
  show "get_x out ''boostAmount'' =
           XFloat (py_max (safe_float_x bi (get_x dst ''boostAmount'') (Finite 0))
             (safe_float_x bi (get_x src ''boostAmount'') (Finite 0)))"
    by (simp add: out get_merge_profile_x get_merge_cto_x get_merge_boost_numbers_x
        get_merge_primary_source_x get_update_x)
  show "get_x out ''boostTotal'' =
           XFloat (py_max (safe_float_x bi (get_x dst ''boostTotal'') (Finite 0))
             (safe_float_x bi (get_x src ''boostTotal'') (Finite 0)))"
    by (simp add: out get_merge_profile_x get_merge_cto_x get_merge_boost_numbers_x
        get_merge_primary_source_x get_update_x)
  show "get_x out ''isCTO'' = XBool (truthy_x (get_x dst ''isCTO'') \<or> truthy_x (get_x src ''isCTO''))"
    by (simp add: out get_merge_profile_x get_merge_cto_x get_merge_boost_numbers_x
        get_merge_primary_source_x get_update_x)
  show "out \<noteq> []"
    using merge_profile_not_Nil_x [of "merge_cto_x (merge_boost_numbers_x bi
                 (merge_primary_source_x bi (AList.update ''sources'' s1 dst) src) src) src" src]
    by (simp add: out merge_cto_x_def update_not_Nil)
qed

lemma merge_candidate_lists_x:
  assumes "dst \<noteq> []" and "get_x dst ''sources'' = XList sd" and "get_x src ''sources'' = XList ss"
  shows "\<exists>out. merge_candidate_x bi dst src = Inr out"
  using assms
  by (simp add: merge_candidate_x_def bind_err_def Let_def src_sources_x_def merge_sources_x_def py_or_x_def)

lemma merge_candidate_sources_list_x:
  assumes "dst \<noteq> []" and "get_x dst ''sources'' = XList sd" and "merge_candidate_x bi dst src = Inr out"
  shows "\<exists>so. get_x out ''sources'' = XList so"
proof -
  from assms(1,3) obtain s1 s2 where s1: "merge_sources_x (get_x dst ''sources'') (get_x src ''source'' # s2) = Inr s1"
    and out: "out = merge_profile_x (merge_cto_x (merge_boost_numbers_x bi
                 (merge_primary_source_x bi (AList.update ''sources'' s1 dst) src) src) src) src"
    by (rule merge_candidate_Inr_x)
  from s1 assms(2) obtain so where "s1 = XList so"
    by (auto simp: merge_sources_x_def py_or_x_def Let_def split: if_splits)
  then show ?thesis
    by (simp add: out get_merge_profile_x get_merge_cto_x get_merge_boost_numbers_x
        get_merge_primary_source_x get_update_x)
qed

lemmas ctor_eval_x = candidate_from_boost_item_x_def candidate_from_ad_item_x_def
  candidate_from_cto_item_x_def normalize_chain_id_x_def CHAIN_ID_def get_x_def get_default_x_def
  py_or_x_def py_str_x_def or_empty_strip_x_def bind_err_def safe_float_x_def Let_def

lemmas merge_eval_x = merge_candidate_x_def bind_err_def src_sources_x_def merge_sources_x_def py_or_x_def
  py_str_x_def priority_def safe_float_x_def merge_primary_source_x_def merge_boost_numbers_x_def
  merge_cto_x_def merge_profile_x_def fill_once_x_def Let_def get_x_def get_default_x_def

lemma scenario_C_candidates_x:
  "candidate_from_boost_item_x xbuiltins0 scenario_C_boost_item_x = Inr (Some scenario_C_boost_x)"
  "candidate_from_ad_item_x xbuiltins0 scenario_C_ad_item_x = Inr (Some scenario_C_ad_x)"
  "candidate_from_cto_item_x xbuiltins0 scenario_C_cto_item_x = Inr (Some scenario_C_cto_x)"
  "candidate_from_boost_item_x xbuiltins0 nan_boost_item_x = Inr (Some nan_boost_x)"
  by (simp_all add: ctor_eval_x string_eval int_to_float_def scenario_C_boost_item_x_def
      scenario_C_ad_item_x_def scenario_C_cto_item_x_def scenario_C_boost_x_def scenario_C_ad_x_def
      scenario_C_cto_x_def nan_boost_item_x_def nan_boost_x_def)

lemma merge_twice_x:
  assumes "A \<noteq> []" and "B \<noteq> []"
    and "merge_candidate_x bi A B = Inr ab" and "merge_candidate_x bi B A = Inr ba"
    and "merge_candidate_x bi ab B = Inr abb"
  shows "get_x ab ''boostAmount'' =
           XFloat (py_max (safe_float_x bi (get_x A ''boostAmount'') (Finite 0))
             (safe_float_x bi (get_x B ''boostAmount'') (Finite 0)))"
    and "get_x ab ''boostTotal'' =
           XFloat (py_max (safe_float_x bi (get_x A ''boostTotal'') (Finite 0))
             (safe_float_x bi (get_x B ''boostTotal'') (Finite 0)))"
    and "get_x ab ''isCTO'' = XBool (truthy_x (get_x A ''isCTO'') \<or> truthy_x (get_x B ''isCTO''))"
    and "get_x ab ''isCTO'' = get_x ba ''isCTO''"
    and "get_x abb ''boostAmount'' = get_x ab ''boostAmount''"
    and "get_x abb ''boostTotal'' = get_x ab ''boostTotal''"
    and "get_x abb ''isCTO'' = get_x ab ''isCTO''"
    and "safe_float_x bi (get_x A ''boostAmount'') (Finite 0) \<noteq> NaN \<Longrightarrow>
         safe_float_x bi (get_x B ''boostAmount'') (Finite 0) \<noteq> NaN \<Longrightarrow>
           get_x ab ''boostAmount'' = get_x ba ''boostAmount''"
    and "safe_float_x bi (get_x A ''boostTotal'') (Finite 0) \<noteq> NaN \<Longrightarrow>
         safe_float_x bi (get_x B ''boostTotal'') (Finite 0) \<noteq> NaN \<Longrightarrow>
           get_x ab ''boostTotal'' = get_x ba ''boostTotal''"
proof -
  note ab = merge_candidate_fields_x [OF assms(1) assms(3)]
  note ba = merge_candidate_fields_x [OF assms(2) assms(4)]
  note abb = merge_candidate_fields_x [OF ab(4) assms(5)]
  show "get_x ab ''boostAmount'' =
           XFloat (py_max (safe_float_x bi (get_x A ''boostAmount'') (Finite 0))
             (safe_float_x bi (get_x B ''boostAmount'') (Finite 0)))"
    by (rule ab(1))
  show "get_x ab ''boostTotal'' =
           XFloat (py_max (safe_float_x bi (get_x A ''boostTotal'') (Finite 0))
             (safe_float_x bi (get_x B ''boostTotal'') (Finite 0)))"
    by (rule ab(2))
  show "get_x ab ''isCTO'' = XBool (truthy_x (get_x A ''isCTO'') \<or> truthy_x (get_x B ''isCTO''))"
    by (rule ab(3))
  show "get_x ab ''isCTO'' = get_x ba ''isCTO''"
    using ab(3) ba(3) by auto
  show "get_x abb ''boostAmount'' = get_x ab ''boostAmount''"
    using ab(1) abb(1) by (simp add: safe_float_x_def py_max_again)
  show "get_x abb ''boostTotal'' = get_x ab ''boostTotal''"
    using ab(2) abb(2) by (simp add: safe_float_x_def py_max_again)
  show "get_x abb ''isCTO'' = get_x ab ''isCTO''"
    using ab(3) abb(3) by auto
  show "get_x ab ''boostAmount'' = get_x ba ''boostAmount''"
    if "safe_float_x bi (get_x A ''boostAmount'') (Finite 0) \<noteq> NaN"
      and "safe_float_x bi (get_x B ''boostAmount'') (Finite 0) \<noteq> NaN"
    using ab(1) ba(1) py_max_commute [OF that] by simp
  show "get_x ab ''boostTotal'' = get_x ba ''boostTotal''"
    if "safe_float_x bi (get_x A ''boostTotal'') (Finite 0) \<noteq> NaN"
      and "safe_float_x bi (get_x B ''boostTotal'') (Finite 0) \<noteq> NaN"
    using ab(2) ba(2) py_max_commute [OF that] by simp
qed

lemma merge_thrice_Inr_x:
  assumes "A \<noteq> []" and "B \<noteq> []"
    and "get_x A ''sources'' = XList sa" and "get_x B ''sources'' = XList sb"
  shows "\<exists>ab ba abb. merge_candidate_x bi A B = Inr ab \<and> merge_candidate_x bi B A = Inr ba \<and>
           merge_candidate_x bi ab B = Inr abb"
proof -
  obtain ab where ab: "merge_candidate_x bi A B = Inr ab"
    using merge_candidate_lists_x [OF assms(1) assms(3) assms(4)] by blast
  obtain ba where ba: "merge_candidate_x bi B A = Inr ba"
    using merge_candidate_lists_x [OF assms(2) assms(4) assms(3)] by blast
  obtain so where "get_x ab ''sources'' = XList so"
    using merge_candidate_sources_list_x [OF assms(1) assms(3) ab] by blast
  moreover have "ab \<noteq> []"
    by (rule merge_candidate_fields_x(4) [OF assms(1) ab])
  ultimately obtain abb where "merge_candidate_x bi ab B = Inr abb"
    using merge_candidate_lists_x [of ab so B sb bi] assms(4) by blast
  with ab ba show ?thesis
    by blast
qed

text \<open>
  C3, as stated, fails: two candidate records of one token, built from a boosts record
  whose amount is the float NaN and from one whose amount is 50, give the
  \<^verbatim>\<open>boostAmount\<close> NaN when the second is merged into the first (\<^verbatim>\<open>max(nan, 50.0)\<close>) and
  50 when the first is merged into the second (\<^verbatim>\<open>max(50.0, nan)\<close>).
\<close>

theorem merge_not_commutative_counterexample:
  "candidate_from_boost_item_x xbuiltins0 nan_boost_item_x = Inr (Some nan_boost_x) \<and>
   candidate_from_boost_item_x xbuiltins0 scenario_C_boost_item_x = Inr (Some scenario_C_boost_x) \<and>
   get_x nan_boost_x ''tokenAddress'' = get_x scenario_C_boost_x ''tokenAddress'' \<and>
   map_sum id (\<lambda>c. get_x c ''boostAmount'') (merge_candidate_x xbuiltins0 nan_boost_x scenario_C_boost_x)
     = Inr (XFloat NaN) \<and>
   map_sum id (\<lambda>c. get_x c ''boostAmount'') (merge_candidate_x xbuiltins0 scenario_C_boost_x nan_boost_x)
     = Inr (XFloat (Finite 50))"
proof -
  have ne: "nan_boost_x \<noteq> []" "scenario_C_boost_x \<noteq> []"
    by (simp_all add: nan_boost_x_def scenario_C_boost_x_def)
  have g: "get_x nan_boost_x ''sources'' = XList [XStr ''boosts'']"
    "get_x scenario_C_boost_x ''sources'' = XList [XStr ''boosts'']"
    "get_x nan_boost_x ''boostAmount'' = XFloat NaN"
    "get_x scenario_C_boost_x ''boostAmount'' = XFloat (Finite 50)"
    "get_x nan_boost_x ''tokenAddress'' = get_x scenario_C_boost_x ''tokenAddress''"
    by (simp_all add: nan_boost_x_def scenario_C_boost_x_def get_Cons_x)
  obtain ab where ab: "merge_candidate_x xbuiltins0 nan_boost_x scenario_C_boost_x = Inr ab"
    using merge_candidate_lists_x [OF ne(1) g(1) g(2)] by blast
  obtain ba where ba: "merge_candidate_x xbuiltins0 scenario_C_boost_x nan_boost_x = Inr ba"
    using merge_candidate_lists_x [OF ne(2) g(2) g(1)] by blast
  have "get_x ab ''boostAmount'' = XFloat NaN"
    using merge_candidate_fields_x(1) [OF ne(1) ab] by (simp add: g safe_float_x_def py_max_NaN)
  moreover have "get_x ba ''boostAmount'' = XFloat (Finite 50)"
    using merge_candidate_fields_x(1) [OF ne(2) ba] by (simp add: g safe_float_x_def py_max_NaN)
  ultimately show ?thesis
    using ab ba g(5) scenario_C_candidates_x by simp
qed

text \<open>
  C3, amended. For two candidate records \<open>A\<close> and \<open>B\<close> (non-empty dicts), merging \<open>B\<close>
  into the result of merging \<open>A\<close> and \<open>B\<close> leaves \<^verbatim>\<open>boostAmount\<close>, \<^verbatim>\<open>boostTotal\<close>
  and \<^verbatim>\<open>isCTO\<close> unchanged, and merging in either order gives the same \<^verbatim>\<open>isCTO\<close> (the
  disjunction of the two). Merging in either order gives the same \<^verbatim>\<open>boostAmount\<close>
  when neither record's \<^verbatim>\<open>boostAmount\<close> is NaN, and the same \<^verbatim>\<open>boostTotal\<close> when
  neither record's \<^verbatim>\<open>boostTotal\<close> is NaN; the value stored is \<^verbatim>\<open>max\<close> of the value of
  the first record and that of the second. When the \<^verbatim>\<open>sources\<close> of both are lists, as
  the candidate constructors build them, none of the three merges raises.
\<close>

theorem merge_commutative_idempotent:
  "(A \<noteq> [] \<and> B \<noteq> [] \<and> merge_candidate_x bi A B = Inr ab \<and> merge_candidate_x bi B A = Inr ba \<and>
    merge_candidate_x bi ab B = Inr abb \<longrightarrow>
      (\<forall>k \<in> set [''boostAmount'', ''boostTotal'', ''isCTO'']. get_x abb k = get_x ab k) \<and>
      get_x ab ''isCTO'' = get_x ba ''isCTO'' \<and>
      (safe_float_x bi (get_x A ''boostAmount'') (Finite 0) \<noteq> NaN \<and>
       safe_float_x bi (get_x B ''boostAmount'') (Finite 0) \<noteq> NaN \<longrightarrow>
         get_x ab ''boostAmount'' = get_x ba ''boostAmount'') \<and>
      (safe_float_x bi (get_x A ''boostTotal'') (Finite 0) \<noteq> NaN \<and>
       safe_float_x bi (get_x B ''boostTotal'') (Finite 0) \<noteq> NaN \<longrightarrow>
         get_x ab ''boostTotal'' = get_x ba ''boostTotal'') \<and>
      get_x ab ''boostAmount'' =
        XFloat (py_max (safe_float_x bi (get_x A ''boostAmount'') (Finite 0))
                  (safe_float_x bi (get_x B ''boostAmount'') (Finite 0))) \<and>
      get_x ab ''boostTotal'' =
        XFloat (py_max (safe_float_x bi (get_x A ''boostTotal'') (Finite 0))
                  (safe_float_x bi (get_x B ''boostTotal'') (Finite 0))) \<and>
      get_x ab ''isCTO'' = XBool (truthy_x (get_x A ''isCTO'') \<or> truthy_x (get_x B ''isCTO''))) \<and>
   (A \<noteq> [] \<and> B \<noteq> [] \<and> get_x A ''sources'' = XList sa \<and> get_x B ''sources'' = XList sb \<longrightarrow>
      (\<exists>ab ba abb. merge_candidate_x bi A B = Inr ab \<and> merge_candidate_x bi B A = Inr ba \<and>
         merge_candidate_x bi ab B = Inr abb))"
proof (intro conjI impI)
  assume "A \<noteq> [] \<and> B \<noteq> [] \<and> get_x A ''sources'' = XList sa \<and> get_x B ''sources'' = XList sb"
  then show "\<exists>ab ba abb. merge_candidate_x bi A B = Inr ab \<and> merge_candidate_x bi B A = Inr ba \<and>
         merge_candidate_x bi ab B = Inr abb"
    using merge_thrice_Inr_x [of A B sa sb bi] by blast
next
  assume h: "A \<noteq> [] \<and> B \<noteq> [] \<and> merge_candidate_x bi A B = Inr ab \<and>
    merge_candidate_x bi B A = Inr ba \<and> merge_candidate_x bi ab B = Inr abb"
  then have m: "A \<noteq> []" "B \<noteq> []" "merge_candidate_x bi A B = Inr ab"
    "merge_candidate_x bi B A = Inr ba" "merge_candidate_x bi ab B = Inr abb"
    by simp_all
  note t = merge_twice_x [OF m]
  show "\<forall>k \<in> set [''boostAmount'', ''boostTotal'', ''isCTO'']. get_x abb k = get_x ab k"
    using t(5-7) by simp
  show "get_x ab ''isCTO'' = get_x ba ''isCTO''"
    by (rule t(4))
  show "get_x ab ''boostAmount'' =
        XFloat (py_max (safe_float_x bi (get_x A ''boostAmount'') (Finite 0))
                  (safe_float_x bi (get_x B ''boostAmount'') (Finite 0)))"
    by (rule t(1))
  show "get_x ab ''boostTotal'' =
        XFloat (py_max (safe_float_x bi (get_x A ''boostTotal'') (Finite 0))
                  (safe_float_x bi (get_x B ''boostTotal'') (Finite 0)))"
    by (rule t(2))
  show "get_x ab ''isCTO'' = XBool (truthy_x (get_x A ''isCTO'') \<or> truthy_x (get_x B ''isCTO''))"
    by (rule t(3))
  show "get_x ab ''boostAmount'' = get_x ba ''boostAmount''"
    if "safe_float_x bi (get_x A ''boostAmount'') (Finite 0) \<noteq> NaN \<and>
       safe_float_x bi (get_x B ''boostAmount'') (Finite 0) \<noteq> NaN"
    using t(8) that by blast
  show "get_x ab ''boostTotal'' = get_x ba ''boostTotal''"
    if "safe_float_x bi (get_x A ''boostTotal'') (Finite 0) \<noteq> NaN \<and>
       safe_float_x bi (get_x B ''boostTotal'') (Finite 0) \<noteq> NaN"
    using t(9) that by blast
qed

theorem merge_commutative_idempotent_witness:
  "scenario_C_boost_x \<noteq> [] \<and> scenario_C_cto_x \<noteq> [] \<and>
   get_x scenario_C_boost_x ''sources'' = XList [XStr ''boosts''] \<and>
   get_x scenario_C_cto_x ''sources'' = XList [XStr ''cto''] \<and>
   safe_float_x xbuiltins0 (get_x scenario_C_boost_x ''boostAmount'') (Finite 0) = Finite 50 \<and>
   safe_float_x xbuiltins0 (get_x scenario_C_cto_x ''boostAmount'') (Finite 0) = Finite 0 \<and>
   safe_float_x xbuiltins0 (get_x scenario_C_boost_x ''boostTotal'') (Finite 0) = Finite 80 \<and>
   safe_float_x xbuiltins0 (get_x scenario_C_cto_x ''boostTotal'') (Finite 0) = Finite 0 \<and>
   (\<exists>ab ba abb.
      merge_candidate_x xbuiltins0 scenario_C_boost_x scenario_C_cto_x = Inr ab \<and>
      merge_candidate_x xbuiltins0 scenario_C_cto_x scenario_C_boost_x = Inr ba \<and>
      merge_candidate_x xbuiltins0 ab scenario_C_cto_x = Inr abb \<and>
      get_x ab ''boostAmount'' = XFloat (Finite 50) \<and> get_x ba ''boostAmount'' = XFloat (Finite 50) \<and>
      get_x abb ''boostAmount'' = XFloat (Finite 50) \<and>
      get_x ab ''boostTotal'' = XFloat (Finite 80) \<and> get_x ba ''boostTotal'' = XFloat (Finite 80) \<and>
      get_x abb ''boostTotal'' = XFloat (Finite 80) \<and>
      get_x ab ''isCTO'' = XBool True \<and> get_x ba ''isCTO'' = XBool True \<and>
      get_x abb ''isCTO'' = XBool True)"
proof -
  have ne: "scenario_C_boost_x \<noteq> []" "scenario_C_cto_x \<noteq> []"
    by (simp_all add: scenario_C_boost_x_def scenario_C_cto_x_def)
  have src: "get_x scenario_C_boost_x ''sources'' = XList [XStr ''boosts'']"
    "get_x scenario_C_cto_x ''sources'' = XList [XStr ''cto'']"
    by (simp_all add: scenario_C_boost_x_def scenario_C_cto_x_def get_Cons_x)
  have vals: "safe_float_x xbuiltins0 (get_x scenario_C_boost_x ''boostAmount'') (Finite 0) = Finite 50"
    "safe_float_x xbuiltins0 (get_x scenario_C_cto_x ''boostAmount'') (Finite 0) = Finite 0"
    "safe_float_x xbuiltins0 (get_x scenario_C_boost_x ''boostTotal'') (Finite 0) = Finite 80"
    "safe_float_x xbuiltins0 (get_x scenario_C_cto_x ''boostTotal'') (Finite 0) = Finite 0"
    "truthy_x (get_x scenario_C_cto_x ''isCTO'')"
    by (simp_all add: scenario_C_boost_x_def scenario_C_cto_x_def get_Cons_x get_Nil_x safe_float_x_def)
  have mx: "py_max (Finite 50) (Finite 0) = Finite 50" "py_max (Finite 80) (Finite 0) = Finite 80"
    by (simp_all add: py_max_def)
  from ne src obtain ab ba abb where
    m: "merge_candidate_x xbuiltins0 scenario_C_boost_x scenario_C_cto_x = Inr ab"
      "merge_candidate_x xbuiltins0 scenario_C_cto_x scenario_C_boost_x = Inr ba"
      "merge_candidate_x xbuiltins0 ab scenario_C_cto_x = Inr abb"
    using merge_commutative_idempotent [where A = scenario_C_boost_x and B = scenario_C_cto_x
        and bi = xbuiltins0 and sa = "[XStr ''boosts'']" and sb = "[XStr ''cto'']"]
    by blast
  with ne vals mx have "get_x ab ''boostAmount'' = XFloat (Finite 50) \<and> get_x ba ''boostAmount'' = XFloat (Finite 50) \<and>
      get_x abb ''boostAmount'' = XFloat (Finite 50) \<and>
      get_x ab ''boostTotal'' = XFloat (Finite 80) \<and> get_x ba ''boostTotal'' = XFloat (Finite 80) \<and>
      get_x abb ''boostTotal'' = XFloat (Finite 80) \<and>
      get_x ab ''isCTO'' = XBool True \<and> get_x ba ''isCTO'' = XBool True \<and>
      get_x abb ''isCTO'' = XBool True"
    using merge_commutative_idempotent [where A = scenario_C_boost_x and B = scenario_C_cto_x
        and bi = xbuiltins0 and ab = ab and ba = ba and abb = abb]
    by auto
  with m ne src vals show ?thesis
    by blast
qed

lemma merge_candidate_source_x:
  assumes "dst \<noteq> []" and "merge_candidate_x bi dst src = Inr out"
  shows "get_x out ''source'' =
     (if priority (py_str_x bi (get_x src ''source'')) > priority (py_str_x bi (get_x dst ''source''))
      then get_x src ''source'' else get_x dst ''source'')"
proof -
  from assms obtain s1 where out: "out = merge_profile_x (merge_cto_x (merge_boost_numbers_x bi
                 (merge_primary_source_x bi (AList.update ''sources'' s1 dst) src) src) src) src"
    by (rule merge_candidate_Inr_x)
  show ?thesis
    by (simp add: out get_merge_profile_x get_merge_cto_x get_merge_boost_numbers_x
        get_merge_primary_source_x get_update_x)
qed

lemma merge_candidate_sources_x:
  assumes "dst \<noteq> []" and "merge_candidate_x bi dst src = Inr out"
    and "src_sources_x (get_x src ''sources'') = Inr s2"
  shows "merge_sources_x (get_x dst ''sources'') (get_x src ''source'' # s2) = Inr (get_x out ''sources'')"
proof -
  from assms(1,2) obtain s1 s2' where s2': "src_sources_x (get_x src ''sources'') = Inr s2'"
    and s1: "merge_sources_x (get_x dst ''sources'') (get_x src ''source'' # s2') = Inr s1"
    and out: "out = merge_profile_x (merge_cto_x (merge_boost_numbers_x bi
                 (merge_primary_source_x bi (AList.update ''sources'' s1 dst) src) src) src) src"
    by (rule merge_candidate_Inr_x)
  have "get_x out ''sources'' = s1"
    by (simp add: out get_merge_profile_x get_merge_cto_x get_merge_boost_numbers_x
        get_merge_primary_source_x get_update_x)
  with s1 s2' assms(3) show ?thesis by simp
qed

lemma candidate_from_boost_item_Some_x:
  assumes "candidate_from_boost_item_x bi it = Inr (Some c)"
  shows "\<exists>ta b t bt url. c =
     [(''chainId'', XStr ''solana''), (''tokenAddress'', XStr ta), (''source'', XStr ''boosts''),
      (''sources'', XList [XStr ''boosts'']), (''boostAmount'', XFloat b),
      (''boostTotal'', XFloat t), (''boostType'', bt), (''profileUrl'', url)]"
proof (cases "or_empty_strip_x bi (get_x it ''tokenAddress'')")
  case (Inl e)
  with assms show ?thesis
    by (simp add: candidate_from_boost_item_x_def Let_def bind_err_def split: if_splits)
next
  case (Inr ta)
  with assms show ?thesis
    by (auto simp: candidate_from_boost_item_x_def Let_def bind_err_def CHAIN_ID_def split: if_splits)
qed

lemma candidate_from_ad_item_Some_x:
  assumes "candidate_from_ad_item_x bi it = Inr (Some c)"
  shows "\<exists>ta ty dt du url. c =
     [(''chainId'', XStr ''solana''), (''tokenAddress'', XStr ta), (''source'', XStr ''ads''),
      (''sources'', XList [XStr ''ads'']), (''adType'', ty), (''adDate'', dt),
      (''adDurationHours'', du), (''profileUrl'', url)]"
proof (cases "or_empty_strip_x bi (get_x it ''tokenAddress'')")
  case (Inl e)
  with assms show ?thesis
    by (simp add: candidate_from_ad_item_x_def Let_def bind_err_def split: if_splits)
next
  case (Inr ta)
  with assms show ?thesis
    by (auto simp: candidate_from_ad_item_x_def Let_def bind_err_def CHAIN_ID_def split: if_splits)
qed

lemma priority_values:
  "priority ''boosts'' = 3" "priority ''ads'' = 2" "priority ''cto'' = 1" "priority ''profiles'' = 0"
  by (simp_all add: priority_def)

lemma merge_boost_then_ad_x:
  assumes cb: "cb =
     [(''chainId'', XStr ''solana''), (''tokenAddress'', XStr ta), (''source'', XStr ''boosts''),
      (''sources'', XList [XStr ''boosts'']), (''boostAmount'', XFloat b),
      (''boostTotal'', XFloat t), (''boostType'', bt), (''profileUrl'', url)]"
    and ca: "ca =
     [(''chainId'', XStr ''solana''), (''tokenAddress'', XStr ta'), (''source'', XStr ''ads''),
      (''sources'', XList [XStr ''ads'']), (''adType'', ty), (''adDate'', dt),
      (''adDurationHours'', du), (''profileUrl'', url')]"
  shows "\<exists>r. merge_candidate_x bi cb ca = Inr r \<and> get_x r ''source'' = XStr ''boosts'' \<and>
           get_x r ''boostAmount'' = XFloat (py_max b (Finite 0)) \<and>
           get_x r ''sources'' = XList [XStr ''boosts'', XStr ''ads'']"
    and "\<exists>r. merge_candidate_x bi ca cb = Inr r \<and> get_x r ''source'' = XStr ''boosts'' \<and>
           get_x r ''boostAmount'' = XFloat (py_max (Finite 0) b) \<and>
           get_x r ''sources'' = XList [XStr ''ads'', XStr ''boosts'']"
proof -
  have ne: "cb \<noteq> []" "ca \<noteq> []"
    by (simp_all add: cb ca)
  have g: "get_x cb ''sources'' = XList [XStr ''boosts'']" "get_x ca ''sources'' = XList [XStr ''ads'']"
    "get_x cb ''source'' = XStr ''boosts''" "get_x ca ''source'' = XStr ''ads''"
    "get_x cb ''boostAmount'' = XFloat b" "get_x ca ''boostAmount'' = XNone"
    by (simp_all add: cb ca get_Cons_x get_Nil_x)
  have ss: "src_sources_x (XList [XStr ''boosts'']) = Inr [XStr ''boosts'']"
    "src_sources_x (XList [XStr ''ads'']) = Inr [XStr ''ads'']"
    by (simp_all add: src_sources_x_def py_or_x_def)
  have ms: "merge_sources_x (XList [XStr ''boosts'']) [XStr ''ads'', XStr ''ads'']
              = Inr (XList [XStr ''boosts'', XStr ''ads''])"
    "merge_sources_x (XList [XStr ''ads'']) [XStr ''boosts'', XStr ''boosts'']
              = Inr (XList [XStr ''ads'', XStr ''boosts''])"
    by (simp_all add: merge_sources_x_def py_or_x_def)
  obtain r where r: "merge_candidate_x bi cb ca = Inr r"
    using merge_candidate_lists_x [OF ne(1) g(1) g(2)] by blast
  have "get_x r ''source'' = XStr ''boosts''"
    using merge_candidate_source_x [OF ne(1) r] by (simp add: g py_str_x_def priority_values)
  moreover have "get_x r ''boostAmount'' = XFloat (py_max b (Finite 0))"
    using merge_candidate_fields_x(1) [OF ne(1) r] by (simp add: g safe_float_x_def)
  moreover have "get_x r ''sources'' = XList [XStr ''boosts'', XStr ''ads'']"
    using merge_candidate_sources_x [OF ne(1) r, of "[XStr ''ads'']"] by (simp add: g ss ms)
  ultimately show "\<exists>r. merge_candidate_x bi cb ca = Inr r \<and> get_x r ''source'' = XStr ''boosts'' \<and>
           get_x r ''boostAmount'' = XFloat (py_max b (Finite 0)) \<and>
           get_x r ''sources'' = XList [XStr ''boosts'', XStr ''ads'']"
    using r by blast
  obtain r' where r': "merge_candidate_x bi ca cb = Inr r'"
    using merge_candidate_lists_x [OF ne(2) g(2) g(1)] by blast
  have "get_x r' ''source'' = XStr ''boosts''"
    using merge_candidate_source_x [OF ne(2) r'] by (simp add: g py_str_x_def priority_values)
  moreover have "get_x r' ''boostAmount'' = XFloat (py_max (Finite 0) b)"
    using merge_candidate_fields_x(1) [OF ne(2) r'] by (simp add: g safe_float_x_def)
  moreover have "get_x r' ''sources'' = XList [XStr ''ads'', XStr ''boosts'']"
    using merge_candidate_sources_x [OF ne(2) r', of "[XStr ''boosts'']"] by (simp add: g ss ms)
  ultimately show "\<exists>r. merge_candidate_x bi ca cb = Inr r \<and> get_x r ''source'' = XStr ''boosts'' \<and>
           get_x r ''boostAmount'' = XFloat (py_max (Finite 0) b) \<and>
           get_x r ''sources'' = XList [XStr ''ads'', XStr ''boosts'']"
    using r' by blast
qed

text \<open>
  C4, as stated, fails for the \<^verbatim>\<open>boostAmount\<close>: with a boosts record whose amount is the
  float NaN and an ads record of the same token, merging the ads candidate into the
  boosts candidate stores NaN (\<^verbatim>\<open>max(nan, 0.0)\<close>) and merging the boosts candidate into
  the ads candidate stores 0 (\<^verbatim>\<open>max(0.0, nan)\<close>): the amount depends on the order.
\<close>

theorem ads_and_boosts_nan_counterexample:
  "candidate_from_boost_item_x xbuiltins0 nan_boost_item_x = Inr (Some nan_boost_x) \<and>
   candidate_from_ad_item_x xbuiltins0 scenario_C_ad_item_x = Inr (Some scenario_C_ad_x) \<and>
   merge_candidate_x xbuiltins0 [] nan_boost_x = Inr nan_boost_x \<and>
   merge_candidate_x xbuiltins0 [] scenario_C_ad_x = Inr scenario_C_ad_x \<and>
   map_sum id (\<lambda>c. get_x c ''boostAmount'') (merge_candidate_x xbuiltins0 nan_boost_x scenario_C_ad_x)
     = Inr (XFloat NaN) \<and>
   map_sum id (\<lambda>c. get_x c ''boostAmount'') (merge_candidate_x xbuiltins0 scenario_C_ad_x nan_boost_x)
     = Inr (XFloat (Finite 0))"
proof -
  have ne: "nan_boost_x \<noteq> []" "scenario_C_ad_x \<noteq> []"
    by (simp_all add: nan_boost_x_def scenario_C_ad_x_def)
  have g: "get_x nan_boost_x ''sources'' = XList [XStr ''boosts'']"
    "get_x scenario_C_ad_x ''sources'' = XList [XStr ''ads'']"
    "get_x nan_boost_x ''boostAmount'' = XFloat NaN"
    "get_x scenario_C_ad_x ''boostAmount'' = XNone"
    by (simp_all add: nan_boost_x_def scenario_C_ad_x_def get_Cons_x get_Nil_x)
  have e: "merge_candidate_x xbuiltins0 [] nan_boost_x = Inr nan_boost_x"
    "merge_candidate_x xbuiltins0 [] scenario_C_ad_x = Inr scenario_C_ad_x"
    by (simp_all add: merge_candidate_x_def)
  obtain r where r: "merge_candidate_x xbuiltins0 nan_boost_x scenario_C_ad_x = Inr r"
    using merge_candidate_lists_x [OF ne(1) g(1) g(2)] by blast
  obtain r' where r': "merge_candidate_x xbuiltins0 scenario_C_ad_x nan_boost_x = Inr r'"
    using merge_candidate_lists_x [OF ne(2) g(2) g(1)] by blast
  have "get_x r ''boostAmount'' = XFloat NaN"
    using merge_candidate_fields_x(1) [OF ne(1) r] by (simp add: g safe_float_x_def py_max_NaN)
  moreover have "get_x r' ''boostAmount'' = XFloat (Finite 0)"
    using merge_candidate_fields_x(1) [OF ne(2) r'] by (simp add: g safe_float_x_def py_max_NaN)
  ultimately show ?thesis
    using r r' e scenario_C_candidates_x by simp
qed

text \<open>
  C4, amended. A boosts candidate and an ads candidate, merged in either order into an
  empty table entry, give \<^verbatim>\<open>source = "boosts"\<close> and \<^verbatim>\<open>sources\<close> holding both
  \<^verbatim>\<open>"boosts"\<close> and \<^verbatim>\<open>"ads"\<close>; and, when the amount \<open>b\<close> of the boosts candidate is not
  NaN, a \<^verbatim>\<open>boostAmount\<close> that is the maximum of \<open>b\<close> and 0 in both orders (the ads
  record carries no amount and counts as 0; 50 in the example of the witness).
\<close>

theorem ads_and_boosts_merge:
  assumes "candidate_from_boost_item_x bi it_b = Inr (Some cb)"
    and "candidate_from_ad_item_x bi it_a = Inr (Some ca)"
  shows "\<exists>b x r y r'.
      get_x cb ''boostAmount'' = XFloat b \<and>
      merge_candidate_x bi [] cb = Inr x \<and> merge_candidate_x bi x ca = Inr r \<and>
      merge_candidate_x bi [] ca = Inr y \<and> merge_candidate_x bi y cb = Inr r' \<and>
      get_x r ''source'' = XStr ''boosts'' \<and> get_x r' ''source'' = XStr ''boosts'' \<and>
      (b \<noteq> NaN \<longrightarrow>
         get_x r ''boostAmount'' = XFloat (py_max b (Finite 0)) \<and>
         get_x r' ''boostAmount'' = XFloat (py_max b (Finite 0)) \<and>
         \<not> float_less (py_max b (Finite 0)) b \<and> \<not> float_less (py_max b (Finite 0)) (Finite 0)) \<and>
      get_x r ''sources'' = XList [XStr ''boosts'', XStr ''ads''] \<and>
      get_x r' ''sources'' = XList [XStr ''ads'', XStr ''boosts'']"
proof -
  from assms(1) obtain ta b t bt url where cb: "cb =
     [(''chainId'', XStr ''solana''), (''tokenAddress'', XStr ta), (''source'', XStr ''boosts''),
      (''sources'', XList [XStr ''boosts'']), (''boostAmount'', XFloat b),
      (''boostTotal'', XFloat t), (''boostType'', bt), (''profileUrl'', url)]"
    using candidate_from_boost_item_Some_x by blast
  from assms(2) obtain ta' ty dt du url' where ca: "ca =
     [(''chainId'', XStr ''solana''), (''tokenAddress'', XStr ta'), (''source'', XStr ''ads''),
      (''sources'', XList [XStr ''ads'']), (''adType'', ty), (''adDate'', dt),
      (''adDurationHours'', du), (''profileUrl'', url')]"
    using candidate_from_ad_item_Some_x by blast
  have e: "merge_candidate_x bi [] cb = Inr cb" "merge_candidate_x bi [] ca = Inr ca"
    by (simp_all add: merge_candidate_x_def)
  have b: "get_x cb ''boostAmount'' = XFloat b"
    by (simp add: cb get_Cons_x)
  have c: "py_max (Finite 0) b = py_max b (Finite 0)" if "b \<noteq> NaN"
    using that by (simp add: py_max_commute)
  have d: "\<not> float_less (py_max b (Finite 0)) b \<and> \<not> float_less (py_max b (Finite 0)) (Finite 0)"
    by (cases b) (auto simp: py_max_def)
  from merge_boost_then_ad_x [OF cb ca, of bi] obtain r r' where
    "merge_candidate_x bi cb ca = Inr r" "get_x r ''source'' = XStr ''boosts''"
    "get_x r ''boostAmount'' = XFloat (py_max b (Finite 0))"
    "get_x r ''sources'' = XList [XStr ''boosts'', XStr ''ads'']"
    "merge_candidate_x bi ca cb = Inr r'" "get_x r' ''source'' = XStr ''boosts''"
    "get_x r' ''boostAmount'' = XFloat (py_max (Finite 0) b)"
    "get_x r' ''sources'' = XList [XStr ''ads'', XStr ''boosts'']"
    by blast
  with e b c d show ?thesis
    by (intro exI [of _ b] exI [of _ cb] exI [of _ r] exI [of _ ca] exI [of _ r']) simp
qed

theorem ads_and_boosts_merge_witness:
  "candidate_from_boost_item_x xbuiltins0 scenario_C_boost_item_x = Inr (Some scenario_C_boost_x) \<and>
   candidate_from_ad_item_x xbuiltins0 scenario_C_ad_item_x = Inr (Some scenario_C_ad_x) \<and>
   (\<exists>x r y r'.
      merge_candidate_x xbuiltins0 [] scenario_C_boost_x = Inr x \<and>
      merge_candidate_x xbuiltins0 x scenario_C_ad_x = Inr r \<and>
      merge_candidate_x xbuiltins0 [] scenario_C_ad_x = Inr y \<and>
      merge_candidate_x xbuiltins0 y scenario_C_boost_x = Inr r' \<and>
      get_x r ''source'' = XStr ''boosts'' \<and> get_x r' ''source'' = XStr ''boosts'' \<and>
      get_x r ''boostAmount'' = XFloat (Finite 50) \<and> get_x r' ''boostAmount'' = XFloat (Finite 50) \<and>
      get_x r ''sources'' = XList [XStr ''boosts'', XStr ''ads''] \<and>
      get_x r' ''sources'' = XList [XStr ''ads'', XStr ''boosts''])"
proof -
  have "get_x scenario_C_boost_x ''boostAmount'' = XFloat (Finite 50)"
    by (simp add: scenario_C_boost_x_def get_Cons_x)
  moreover have "py_max (Finite 50) (Finite 0) = Finite 50"
    by (simp add: py_max_def)
  ultimately show ?thesis
    using ads_and_boosts_merge [OF scenario_C_candidates_x(1) scenario_C_candidates_x(2)]
      scenario_C_candidates_x
    by auto
qed

section \<open>Chain matching\<close>

lemma normalize_chain_id_solana:
  "(normalize_chain_id bi v = CHAIN_ID) =
   (lower bi (strip bi (py_str bi (py_or v (PStr []))))
      \<in> set [''sol'', ''solana-mainnet'', ''mainnet'', ''sol-mainnet'', ''solana''])"
  by (auto simp: normalize_chain_id_def CHAIN_ID_def Let_def)

lemma candidates_off_chain:
  assumes "normalize_chain_id bi (get it ''chainId'') \<noteq> CHAIN_ID"
  shows "candidate_from_boost_item bi it = Inr None"
    and "candidate_from_ad_item bi it = Inr None"
    and "candidate_from_cto_item bi it = Inr None"
  using assms
  by (simp_all add: candidate_from_boost_item_def candidate_from_ad_item_def
      candidate_from_cto_item_def Let_def)

lemma candidates_on_chain:
  assumes "normalize_chain_id bi (get it ''chainId'') = CHAIN_ID"
    and "get it ''tokenAddress'' = PStr a" and "strip bi a \<noteq> []"
  shows "\<exists>cand. candidate_from_boost_item bi it = Inr (Some cand) \<and> get cand ''chainId'' = PStr CHAIN_ID"
    and "\<exists>cand. candidate_from_ad_item bi it = Inr (Some cand) \<and> get cand ''chainId'' = PStr CHAIN_ID"
    and "\<exists>cand. candidate_from_cto_item bi it = Inr (Some cand) \<and> get cand ''chainId'' = PStr CHAIN_ID"
proof -
  have "a \<noteq> []"
    using assms(3) by (auto simp: strip_def)
  then have "or_empty_strip bi (get it ''tokenAddress'') = Inr (strip bi a)"
    by (simp add: assms(2) or_empty_strip_def py_or_def)
  with assms(1,3) show
    "\<exists>cand. candidate_from_boost_item bi it = Inr (Some cand) \<and> get cand ''chainId'' = PStr CHAIN_ID"
    "\<exists>cand. candidate_from_ad_item bi it = Inr (Some cand) \<and> get cand ''chainId'' = PStr CHAIN_ID"
    "\<exists>cand. candidate_from_cto_item bi it = Inr (Some cand) \<and> get cand ''chainId'' = PStr CHAIN_ID"
    by (simp_all add: candidate_from_boost_item_def candidate_from_ad_item_def
        candidate_from_cto_item_def Let_def bind_err_def get_Cons)
qed

text \<open>
  C10. Let \<open>c\<close> be the \<^verbatim>\<open>chainId\<close> of a promotion record, trimmed and lower-cased.
  The record matches the configured chain exactly when \<open>c\<close> is one of \<^verbatim>\<open>sol\<close>,
  \<^verbatim>\<open>solana-mainnet\<close>, \<^verbatim>\<open>mainnet\<close>, \<^verbatim>\<open>sol-mainnet\<close> or \<^verbatim>\<open>solana\<close>. With any
  other value the three candidate constructors return \<^verbatim>\<open>None\<close>; with one of these
  values they return a candidate of chain \<^verbatim>\<open>solana\<close> (the token address being a
  string that is not blank, the other check of the constructors).
\<close>

theorem chain_alias_matching:
  assumes "c = lower bi (strip bi (py_str bi (py_or (get it ''chainId'') (PStr []))))"
  shows "(normalize_chain_id bi (get it ''chainId'') = CHAIN_ID \<longleftrightarrow>
            c \<in> set [''sol'', ''solana-mainnet'', ''mainnet'', ''sol-mainnet'', ''solana'']) \<and>
         (c \<notin> set [''sol'', ''solana-mainnet'', ''mainnet'', ''sol-mainnet'', ''solana''] \<longrightarrow>
            candidate_from_boost_item bi it = Inr None \<and>
            candidate_from_ad_item bi it = Inr None \<and>
            candidate_from_cto_item bi it = Inr None) \<and>
         (c \<in> set [''sol'', ''solana-mainnet'', ''mainnet'', ''sol-mainnet'', ''solana''] \<and>
          get it ''tokenAddress'' = PStr a \<and> strip bi a \<noteq> [] \<longrightarrow>
            (\<exists>cand. candidate_from_boost_item bi it = Inr (Some cand) \<and>
                    get cand ''chainId'' = PStr CHAIN_ID) \<and>
            (\<exists>cand. candidate_from_ad_item bi it = Inr (Some cand) \<and>
                    get cand ''chainId'' = PStr CHAIN_ID) \<and>
            (\<exists>cand. candidate_from_cto_item bi it = Inr (Some cand) \<and>
                    get cand ''chainId'' = PStr CHAIN_ID))"
  unfolding assms normalize_chain_id_solana [symmetric]
  using candidates_off_chain [of bi it] candidates_on_chain [of bi it a]
  by blast

theorem chain_alias_matching_witness:
  "''sol'' = lower builtins0 (strip builtins0 (py_str builtins0 (py_or (get scenario_C_cto_item ''chainId'') (PStr [])))) \<and>
   normalize_chain_id builtins0 (get scenario_C_cto_item ''chainId'') = CHAIN_ID \<and>
   get scenario_C_cto_item ''tokenAddress'' = PStr '' TokenC '' \<and> strip builtins0 '' TokenC '' \<noteq> [] \<and>
   (\<exists>cand. candidate_from_boost_item builtins0 scenario_C_cto_item = Inr (Some cand)) \<and>
   (\<exists>cand. candidate_from_ad_item builtins0 scenario_C_cto_item = Inr (Some cand)) \<and>
   (\<exists>cand. candidate_from_cto_item builtins0 scenario_C_cto_item = Inr (Some cand)) \<and>
   ''ethereum'' = lower builtins0 (strip builtins0 (py_str builtins0 (py_or (get ethereum_item ''chainId'') (PStr [])))) \<and>
   ''ethereum'' \<notin> set [''sol'', ''solana-mainnet'', ''mainnet'', ''sol-mainnet'', ''solana''] \<and>
   candidate_from_boost_item builtins0 ethereum_item = Inr None \<and>
   candidate_from_ad_item builtins0 ethereum_item = Inr None \<and>
   candidate_from_cto_item builtins0 ethereum_item = Inr None"
proof -
  have c1: "lower builtins0 (strip builtins0 (py_str builtins0 (py_or (get scenario_C_cto_item ''chainId'') (PStr [])))) = ''sol''"
    by (simp add: scenario_C_cto_item_def get_Cons py_or_def py_str_def string_eval)
  have c2: "lower builtins0 (strip builtins0 (py_str builtins0 (py_or (get ethereum_item ''chainId'') (PStr [])))) = ''ethereum''"
    by (simp add: ethereum_item_def get_Cons py_or_def py_str_def string_eval)
  have t: "get scenario_C_cto_item ''tokenAddress'' = PStr '' TokenC ''" "strip builtins0 '' TokenC '' \<noteq> []"
    by (simp_all add: scenario_C_cto_item_def get_Cons string_eval)
  have m: "''sol'' \<in> set [''sol'', ''solana-mainnet'', ''mainnet'', ''sol-mainnet'', ''solana'']"
    "''ethereum'' \<notin> set [''sol'', ''solana-mainnet'', ''mainnet'', ''sol-mainnet'', ''solana'']"
    by simp_all
  note k = chain_alias_matching [OF c1 [symmetric], of "'' TokenC ''"]
  note d = chain_alias_matching [OF c2 [symmetric], of "''0xabc''"]
  from k m(1) t have "normalize_chain_id builtins0 (get scenario_C_cto_item ''chainId'') = CHAIN_ID"
    "\<exists>cand. candidate_from_boost_item builtins0 scenario_C_cto_item = Inr (Some cand)"
    "\<exists>cand. candidate_from_ad_item builtins0 scenario_C_cto_item = Inr (Some cand)"
    "\<exists>cand. candidate_from_cto_item builtins0 scenario_C_cto_item = Inr (Some cand)"
    by blast+
  moreover from d m(2) have "candidate_from_boost_item builtins0 ethereum_item = Inr None"
    "candidate_from_ad_item builtins0 ethereum_item = Inr None"
    "candidate_from_cto_item builtins0 ethereum_item = Inr None"
    by blast+
  ultimately show ?thesis
    using c1 [symmetric] c2 [symmetric] t m(2) by blast
qed

section \<open>Ranking: one row per token, order and length\<close>

lemma update_absent: "map_of al k = None \<Longrightarrow> AList.update k v al = al @ [(k, v)]"
  by (induction al) auto

lemma fold_best_per_token:
  assumes "\<forall>r\<in>set rows. \<exists>ta. token_key bi r = Inr ta"
  shows "fold_err (best_per_token_add bi) best rows =
           Inr (best @ map (\<lambda>r. (token_of bi r, r)) (first_rows bi (insert [] (fst ` set best)) rows))"
  using assms
proof (induction rows arbitrary: best)
  case Nil
  then show ?case by simp
next
  case (Cons r rs)
  then obtain ta where ta: "token_key bi r = Inr ta"
    by auto
  then have tof: "token_of bi r = ta"
    by (simp add: token_of_def)
  from Cons.prems have rs: "\<forall>r\<in>set rs. \<exists>ta. token_key bi r = Inr ta"
    by simp
  show ?case
  proof (cases "ta = [] \<or> map_of best ta \<noteq> None")
    case True
    then have "best_per_token_add bi best r = Inr best"
      by (auto simp: best_per_token_add_def bind_err_def ta)
    moreover from True have "token_of bi r \<in> insert [] (fst ` set best)"
      by (auto simp: tof map_of_eq_None_iff)
    ultimately show ?thesis
      using Cons.IH [OF rs, of best] by simp
  next
    case False
    then have add: "best_per_token_add bi best r = Inr (best @ [(ta, r)])"
      by (simp add: best_per_token_add_def bind_err_def ta update_absent)
    from False have "token_of bi r \<notin> insert [] (fst ` set best)"
      by (auto simp: tof map_of_eq_None_iff)
    moreover have "insert [] (fst ` set (best @ [(ta, r)])) = insert ta (insert [] (fst ` set best))"
      by auto
    ultimately show ?thesis
      using Cons.IH [OF rs, of "best @ [(ta, r)]"] add by (simp add: tof)
  qed
qed

lemma length_first_rows: "length (first_rows bi seen rs) \<le> length rs"
  by (induction rs arbitrary: seen) (auto intro: le_SucI)

lemma set_first_rows: "set (first_rows bi seen rs) \<subseteq> set rs"
  by (induction rs arbitrary: seen) auto

lemma tokens_first_rows: "token_of bi ` set (first_rows bi seen rs) = token_of bi ` set rs - seen"
  by (induction rs arbitrary: seen) auto

lemma distinct_first_rows: "distinct (map (token_of bi) (first_rows bi seen rs))"
proof (induction rs arbitrary: seen)
  case Nil
  then show ?case by simp
next
  case (Cons r rs)
  have "token_of bi r \<notin> token_of bi ` set (first_rows bi (insert (token_of bi r) seen) rs)"
    by (simp add: tokens_first_rows)
  with Cons show ?case by simp
qed

lemma first_rows_best:
  assumes "sorted_wrt (\<lambda>a b. key b \<le> key a) rs"
    and "r \<in> set (first_rows bi seen rs)" and "r' \<in> set rs" and "token_of bi r' = token_of bi r"
  shows "key r' \<le> (key r :: 'k :: order)"
  using assms
proof (induction rs arbitrary: seen)
  case Nil
  then show ?case by simp
next
  case (Cons x xs)
  show ?case
  proof (cases "token_of bi x \<in> seen")
    case True
    with Cons.prems(2) have r: "r \<in> set (first_rows bi seen xs)"
      by simp
    then have "token_of bi r \<notin> seen"
      using tokens_first_rows [of bi seen xs] by auto
    with True Cons.prems(4) have "r' \<noteq> x"
      by auto
    with Cons.prems(3) have "r' \<in> set xs"
      by simp
    with Cons.IH [OF _ r _ Cons.prems(4)] Cons.prems(1) show ?thesis
      by simp
  next
    case False
    with Cons.prems(2) consider "r = x" | "r \<in> set (first_rows bi (insert (token_of bi x) seen) xs)"
      by auto
    then show ?thesis
    proof cases
      case 1
      with Cons.prems(1,3) show ?thesis
        by auto
    next
      case 2
      then have "token_of bi r \<noteq> token_of bi x"
        using tokens_first_rows [of bi "insert (token_of bi x) seen" xs] by auto
      with Cons.prems(4) have "r' \<noteq> x"
        by auto
      with Cons.prems(3) have "r' \<in> set xs"
        by simp
      with Cons.IH [OF _ 2 _ Cons.prems(4)] Cons.prems(1) show ?thesis
        by simp
    qed
  qed
qed

lemma filter_distinct_key:
  assumes "distinct (map f xs)" and "x \<in> set xs"
  shows "length (filter (\<lambda>y. f y = f x) xs) = 1"
  using assms
proof (induction xs)
  case Nil
  then show ?case by simp
next
  case (Cons a xs)
  show ?case
  proof (cases "x = a")
    case True
    from Cons.prems(1) have "\<forall>y\<in>set xs. f y \<noteq> f a"
      by (metis distinct.simps(2) image_eqI list.simps(9) set_map)
    then have "filter (\<lambda>y. f y = f a) xs = []"
      by (simp add: filter_empty_conv)
    with True show ?thesis by simp
  next
    case False
    with Cons.prems have "x \<in> set xs" and "f a \<noteq> f x"
      by auto
    with Cons show ?thesis by simp
  qed
qed

lemma set_sort_rows: "set (sort_rows bi opts rows) = set rows"
  by (simp add: sort_rows_def)

lemma length_sort_rows: "length (sort_rows bi opts rows) = length rows"
  by (simp add: sort_rows_def)

lemma filter_sort_rows:
  "length (filter P (sort_rows bi opts rows)) = length (filter P rows)"
proof -
  have "filter P (sort_rows bi opts rows) = rev (sort_key (rank_key bi opts) (filter P (rev rows)))"
    by (simp add: sort_rows_def rev_filter [symmetric] filter_sort)
  then show ?thesis
    by (simp add: rev_filter [symmetric])
qed

lemma sorted_sort_rows:
  "sorted_wrt (\<lambda>a b. rank_key bi opts b \<le> rank_key bi opts a) (sort_rows bi opts rows)"
proof -
  have "sorted_wrt (\<lambda>a b. rank_key bi opts a \<le> rank_key bi opts b)
          (sort_key (rank_key bi opts) (rev rows))"
    using sorted_sort_key [of "rank_key bi opts" "rev rows"] by (simp add: sorted_map)
  then show ?thesis
    by (simp add: sort_rows_def sorted_wrt_rev)
qed

lemma unique_rows_first_rows:
  assumes "\<forall>r\<in>set rows. \<exists>ta. token_key bi r = Inr ta"
  shows "unique_rows bi opts rows = Inr (sort_rows bi opts (first_rows bi {[]} rows))"
  using fold_best_per_token [OF assms, of "[]"]
  by (simp add: unique_rows_def bind_err_def comp_def)

lemma token_key_token_of:
  "token_key bi r = Inr ta \<Longrightarrow> token_of bi r = ta"
  by (simp add: token_of_def)

lemma unique_rows_props:
  fixes bi :: builtins and opts :: ScanOptions and rows :: "pydict list"
  assumes ok: "\<forall>r\<in>set rows. \<exists>ta. token_key bi r = Inr ta \<and> ta \<noteq> []"
  defines "kept \<equiv> first_rows bi {[]} (sort_rows bi opts rows)"
  shows "unique_rows bi opts (sort_rows bi opts rows) = Inr (sort_rows bi opts kept)"
    and "length kept \<le> length rows"
    and "set kept \<subseteq> set rows"
    and "distinct (map (token_of bi) kept)"
    and "token_of bi ` set kept = token_of bi ` set rows"
    and "\<forall>r\<in>set kept. \<forall>r'\<in>set rows. token_of bi r' = token_of bi r \<longrightarrow>
           rank_key bi opts r' \<le> rank_key bi opts r"
proof -
  have "\<forall>r\<in>set (sort_rows bi opts rows). \<exists>ta. token_key bi r = Inr ta"
    using ok by (auto simp: set_sort_rows)
  then show "unique_rows bi opts (sort_rows bi opts rows) = Inr (sort_rows bi opts kept)"
    unfolding kept_def by (rule unique_rows_first_rows)
  show "length kept \<le> length rows"
    using length_first_rows [of bi "{[]}" "sort_rows bi opts rows"]
    by (simp add: kept_def length_sort_rows)
  show "set kept \<subseteq> set rows"
    using set_first_rows [of bi "{[]}" "sort_rows bi opts rows"]
    by (simp add: kept_def set_sort_rows)
  show "distinct (map (token_of bi) kept)"
    unfolding kept_def by (rule distinct_first_rows)
  have "token_of bi r \<noteq> []" if "r \<in> set rows" for r
  proof -
    from ok that obtain ta where "token_key bi r = Inr ta" and "ta \<noteq> []"
      by blast
    then show ?thesis
      by (simp add: token_of_def)
  qed
  then have "[] \<notin> token_of bi ` set rows"
    by (metis imageE)
  then show "token_of bi ` set kept = token_of bi ` set rows"
    by (simp add: kept_def tokens_first_rows set_sort_rows)
  show "\<forall>r\<in>set kept. \<forall>r'\<in>set rows. token_of bi r' = token_of bi r \<longrightarrow>
           rank_key bi opts r' \<le> rank_key bi opts r"
  proof (intro ballI impI)
    fix r r'
    assume "r \<in> set kept" and "r' \<in> set rows" and "token_of bi r' = token_of bi r"
    then show "rank_key bi opts r' \<le> rank_key bi opts r"
      using first_rows_best [OF sorted_sort_rows [where bi = bi and opts = opts and rows = rows],
          where r = r and seen = "{[]}" and bi = bi and r' = r']
      by (simp add: kept_def set_sort_rows)
  qed
qed

text \<open>
  C5. On rows that all carry a token address, the unique-per-token reduction (the sort,
  the loop over \<^verbatim>\<open>best_per_token\<close> and the second sort) returns a list that is no
  longer than its input and holds only rows of the input, exactly one for every token
  address of the input; and the rank key of a retained row is greater than or equal to
  the rank key of every input row of the same token, so of every discarded one.
\<close>

theorem unique_per_token_reduction:
  assumes "\<forall>r\<in>set rows. \<exists>ta. token_key bi r = Inr ta \<and> ta \<noteq> []"
  shows "\<exists>out. unique_rows bi opts (sort_rows bi opts rows) = Inr out \<and>
      length out \<le> length rows \<and> set out \<subseteq> set rows \<and>
      (\<forall>r\<in>set rows. length (filter (\<lambda>r'. token_key bi r' = token_key bi r) out) = 1) \<and>
      (\<forall>r\<in>set out. \<forall>r'\<in>set rows. token_key bi r' = token_key bi r \<longrightarrow>
          rank_key bi opts r' \<le> rank_key bi opts r)"
proof -
  define kept where "kept = first_rows bi {[]} (sort_rows bi opts rows)"
  define out where "out = sort_rows bi opts kept"
  note p = unique_rows_props [OF assms, where opts = opts, folded kept_def]
  have key: "token_key bi r = Inr (token_of bi r)" if "r \<in> set rows" for r
  proof -
    from assms that obtain ta where "token_key bi r = Inr ta"
      by blast
    then show ?thesis
      by (simp add: token_of_def)
  qed
  have "unique_rows bi opts (sort_rows bi opts rows) = Inr out"
    by (simp add: p(1) out_def)
  moreover have "length out \<le> length rows"
    by (simp add: out_def length_sort_rows p(2))
  moreover have sub: "set out \<subseteq> set rows"
    by (simp add: out_def set_sort_rows p(3))
  moreover have "length (filter (\<lambda>r'. token_key bi r' = token_key bi r) out) = 1" if r: "r \<in> set rows" for r
  proof -
    from r have "token_of bi r \<in> token_of bi ` set kept"
      by (simp add: p(5))
    then obtain x where x: "x \<in> set kept" "token_of bi x = token_of bi r"
      by (auto simp: image_iff)
    have "filter (\<lambda>r'. token_key bi r' = token_key bi r) kept = filter (\<lambda>r'. token_of bi r' = token_of bi x) kept"
    proof (rule filter_cong [OF refl])
      fix y assume "y \<in> set kept"
      then have "y \<in> set rows" using p(3) by auto
      then show "(token_key bi y = token_key bi r) = (token_of bi y = token_of bi x)"
        using key [of y] key [OF r] x(2) by auto
    qed
    then have "length (filter (\<lambda>r'. token_key bi r' = token_key bi r) kept) = 1"
      using filter_distinct_key [OF p(4) x(1)] by simp
    then show ?thesis
      by (simp add: out_def filter_sort_rows)
  qed
  moreover have "rank_key bi opts r' \<le> rank_key bi opts r"
    if "r \<in> set out" "r' \<in> set rows" "token_key bi r' = token_key bi r" for r r'
  proof -
    from that(1) have rk: "r \<in> set kept"
      by (simp add: out_def set_sort_rows)
    then have "r \<in> set rows" using p(3) by auto
    then have "token_of bi r' = token_of bi r"
      using key [of r] key [OF that(2)] that(3) by simp
    with p(6) rk that(2) show ?thesis by blast
  qed
  ultimately show ?thesis by blast
qed


lemma thresholds_pump_early:
  "mode_thresholds bi ''ultra_early'' True =
     \<lparr>min_liq = 2500, min_vol5 = 40, min_netbuy5 = 0, max_age_min = 240, min_score = 0.15\<rparr>"
  "mode_thresholds bi ''early'' True =
     \<lparr>min_liq = 3500, min_vol5 = 80, min_netbuy5 = 0, max_age_min = 1440, min_score = 0.25\<rparr>"
  by (simp_all add: mode_thresholds_def lower_def strip_def py_isspace_def lower_char_def is_ascii_def)

lemma mode_gate_token:
  "mode_gate bi (AList.update ''tokenAddress'' v row) m p = mode_gate bi row m p"
  by (simp add: mode_gate_def get_update)

lemma concat_map_all:
  "\<forall>x\<in>set xs. P x \<Longrightarrow> concat (map (\<lambda>x. if P x then [g x] else []) xs) = map g xs"
  by (induction xs) simp_all

lemma scenario_D_mode_rows:
  "mode_rows builtins0 scenario_D_options (scenario_D_row t) =
     map (\<lambda>m. AList.update ''mode'' (PStr m) (scenario_D_row t))
       [''ultra_early'', ''early_strict'', ''early'', ''strict'', ''degen'']"
proof -
  have sel: "selected_modes scenario_D_options =
      [''ultra_early'', ''early_strict'', ''early'', ''strict'', ''degen'']"
    and pump: "pump_mode scenario_D_options = True"
    by (simp_all add: scenario_D_options_def default_options_def)
  have "mode_gate builtins0 (scenario_A_row builtins0) m True"
    if "m \<in> set [''ultra_early'', ''early_strict'', ''early'', ''strict'', ''degen'']" for m
  proof -
    from that consider "m = ''ultra_early''" | "m = ''early_strict''" | "m = ''early''"
      | "m = ''strict''" | "m = ''degen''"
      by auto
    then show ?thesis
      by cases
        (simp_all only: , (rule scenario_A_gate,
            simp_all add: thresholds_pump thresholds_pump_early trunc_def)+)
  qed
  then have "\<forall>m\<in>set (selected_modes scenario_D_options).
      mode_gate builtins0 (scenario_D_row t) m (pump_mode scenario_D_options)"
    by (simp only: sel pump scenario_D_row_def mode_gate_token) blast
  then show ?thesis
    unfolding mode_rows_def sel [symmetric] by (rule concat_map_all)
qed

lemma token_key_scenario_D:
  "t \<noteq> [] \<Longrightarrow> token_key bi (AList.update ''mode'' (PStr m) (scenario_D_row t)) = Inr (lower bi t)"
  by (simp add: token_key_def scenario_D_row_def get_update py_or_def)

lemma length_scenario_D_rows: "length scenario_D_rows = 20"
  by (simp add: scenario_D_rows_def scenario_D_mode_rows)

lemma token_keys_scenario_D_rows:
  "token_key bi ` set scenario_D_rows = {Inr ''toka'', Inr ''tokb'', Inr ''tokc'', Inr ''tokd''}"
  by (simp add: scenario_D_rows_def scenario_D_mode_rows token_key_scenario_D image_Un
      lower_def lower_char_def is_ascii_def insert_commute)

lemma scenario_D_rows_ok:
  "\<forall>r\<in>set scenario_D_rows. \<exists>ta. token_key bi r = Inr ta \<and> ta \<noteq> []"
proof
  fix r assume "r \<in> set scenario_D_rows"
  then have "token_key bi r \<in> {Inr ''toka'', Inr ''tokb'', Inr ''tokc'', Inr ''tokd''}"
    using token_keys_scenario_D_rows by blast
  then show "\<exists>ta. token_key bi r = Inr ta \<and> ta \<noteq> []"
    by auto
qed








theorem unique_per_token_reduction_witness:
  "list_all (\<lambda>r. \<exists>ta. token_key builtins0 r = Inr ta \<and> ta \<noteq> []) scenario_D_rows \<and>
   (\<exists>out. unique_rows builtins0 scenario_D_options
            (sort_rows builtins0 scenario_D_options scenario_D_rows) = Inr out \<and>
      length out \<le> 20 \<and> set out \<subseteq> set scenario_D_rows \<and>
      (\<forall>r\<in>set scenario_D_rows. length (filter (\<lambda>r'. token_key builtins0 r' = token_key builtins0 r) out) = 1) \<and>
      (\<forall>r\<in>set out. \<forall>r'\<in>set scenario_D_rows. token_key builtins0 r' = token_key builtins0 r \<longrightarrow>
          rank_key builtins0 scenario_D_options r' \<le> rank_key builtins0 scenario_D_options r))"
  using unique_per_token_reduction [OF scenario_D_rows_ok, of builtins0 scenario_D_options]
    scenario_D_rows_ok
  by (simp add: length_scenario_D_rows list_all_iff)

section \<open>A scan without candidates\<close>

lemma scan_options_flags:
  "include_boosts (scan_options bi args) = include_boosts args"
  "include_ads (scan_options bi args) = include_ads args"
  "include_cto (scan_options bi args) = include_cto args"
  "pump_mode (scan_options bi args) = pump_mode args"
  by (simp_all add: scan_options_def)

lemma collect_candidates_empty:
  assumes "\<not> include_boosts opts \<or>
      (fetch_token_boosts_latest prov = [] \<and> (\<not> pump_mode opts \<or> fetch_token_boosts_top prov = []))"
    and "\<not> include_ads opts \<or> fetch_ads_latest prov = []"
    and "\<not> include_cto opts \<or> fetch_community_takeovers_latest prov = []"
  shows "\<exists>counts. collect_candidates bi opts prov = Inr ([], counts)"
proof -
  have b: "(if include_boosts opts
             then fetch_token_boosts_latest prov
                  @ (if pump_mode opts then fetch_token_boosts_top prov else [])
             else []) = []"
    using assms(1) by auto
  have a: "(if include_ads opts
                then fold_err (add_candidate bi (candidate_from_ad_item bi)) [] (fetch_ads_latest prov)
                else Inr []) = Inr []"
    using assms(2) by auto
  have c: "(if include_cto opts
                then fold_err (add_candidate bi (candidate_from_cto_item bi)) []
                       (fetch_community_takeovers_latest prov)
                else Inr []) = Inr []"
    using assms(3) by auto
  show ?thesis
    unfolding collect_candidates_def Let_def b
    by (simp add: bind_err_def a c)
qed

lemma cut_candidates_Nil: "cut_candidates bi opts [] = []"
  by (simp add: cut_candidates_def)

lemma run_scan_no_candidates:
  assumes "collect_candidates bi (scan_options bi args) prov = Inr ([], counts)"
  shows "run_scan_for_modes bi prov args =
     Inr ([], [(''counts'', PDict (AList.update ''candidates_unique'' (PInt 0) counts)),
               (''why'', PStr ''no_candidates'')])"
  unfolding run_scan_for_modes_def Let_def assms
  by (simp add: bind_err_def cut_candidates_Nil)

text \<open>
  C7. When the candidate table is empty after aggregation, \<^verbatim>\<open>run_scan_for_modes\<close>
  returns the pair of the empty list and a debug record whose \<^verbatim>\<open>why\<close> is
  \<^verbatim>\<open>"no_candidates"\<close>: it returns, it does not raise. This is so in particular when
  every promotion source is disabled or returns an empty list of records, whatever the
  selected modes and the other options.
\<close>

theorem no_candidates_terminal:
  "(collect_candidates bi (scan_options bi args) prov = Inr ([], counts) \<longrightarrow>
      (\<exists>debug. run_scan_for_modes bi prov args = Inr ([], debug) \<and>
         get debug ''why'' = PStr ''no_candidates'')) \<and>
   ((\<not> include_boosts args \<or>
       (fetch_token_boosts_latest prov = [] \<and>
        (\<not> pump_mode args \<or> fetch_token_boosts_top prov = []))) \<and>
    (\<not> include_ads args \<or> fetch_ads_latest prov = []) \<and>
    (\<not> include_cto args \<or> fetch_community_takeovers_latest prov = []) \<longrightarrow>
      (\<exists>debug. run_scan_for_modes bi prov args = Inr ([], debug) \<and>
         get debug ''why'' = PStr ''no_candidates''))"
proof (intro conjI impI)
  assume "collect_candidates bi (scan_options bi args) prov = Inr ([], counts)"
  then show "\<exists>debug. run_scan_for_modes bi prov args = Inr ([], debug) \<and>
         get debug ''why'' = PStr ''no_candidates''"
    by (simp add: run_scan_no_candidates get_def get_default_def)
next
  assume h: "(\<not> include_boosts args \<or>
       (fetch_token_boosts_latest prov = [] \<and>
        (\<not> pump_mode args \<or> fetch_token_boosts_top prov = []))) \<and>
    (\<not> include_ads args \<or> fetch_ads_latest prov = []) \<and>
    (\<not> include_cto args \<or> fetch_community_takeovers_latest prov = [])"
  then obtain counts where "collect_candidates bi (scan_options bi args) prov = Inr ([], counts)"
    using collect_candidates_empty [of "scan_options bi args" prov bi]
    by (auto simp: scan_options_flags)
  then show "\<exists>debug. run_scan_for_modes bi prov args = Inr ([], debug) \<and>
         get debug ''why'' = PStr ''no_candidates''"
    by (simp add: run_scan_no_candidates get_def get_default_def)
qed

theorem no_candidates_terminal_witness:
  "collect_candidates builtins0 (scan_options builtins0 (default_options [''strict''])) empty_provider =
     Inr ([], [(''boost_items_raw'', PInt 0), (''ads_items_raw'', PInt 0),
               (''cto_items_raw'', PInt 0)]) \<and>
   (\<exists>debug. run_scan_for_modes builtins0 empty_provider (default_options [''strict''])
              = Inr ([], debug) \<and>
            get debug ''why'' = PStr ''no_candidates'') \<and>
   \<not> include_boosts no_sources_options \<and> \<not> include_ads no_sources_options \<and>
   \<not> include_cto no_sources_options \<and>
   fetch_token_boosts_latest scenario_C_provider = [scenario_C_boost_item] \<and>
   (\<exists>debug. run_scan_for_modes builtins0 scenario_C_provider no_sources_options = Inr ([], debug) \<and>
            get debug ''why'' = PStr ''no_candidates'')"
proof -
  have c: "collect_candidates builtins0 (scan_options builtins0 (default_options [''strict''])) empty_provider =
     Inr ([], [(''boost_items_raw'', PInt 0), (''ads_items_raw'', PInt 0),
               (''cto_items_raw'', PInt 0)])"
    by (simp add: collect_candidates_def scan_options_def default_options_def empty_provider_def
        bind_err_def Let_def)
  have f: "\<not> include_boosts no_sources_options" "\<not> include_ads no_sources_options"
    "\<not> include_cto no_sources_options"
    "fetch_token_boosts_latest scenario_C_provider = [scenario_C_boost_item]"
    by (simp_all add: no_sources_options_def default_options_def scenario_C_provider_def)
  from c have "\<exists>debug. run_scan_for_modes builtins0 empty_provider (default_options [''strict''])
              = Inr ([], debug) \<and> get debug ''why'' = PStr ''no_candidates''"
    using no_candidates_terminal [where bi = builtins0 and prov = empty_provider
        and args = "default_options [''strict'']"]
    by blast
  moreover from f have "\<exists>debug. run_scan_for_modes builtins0 scenario_C_provider no_sources_options
              = Inr ([], debug) \<and> get debug ''why'' = PStr ''no_candidates''"
    using no_candidates_terminal [where bi = builtins0 and prov = scenario_C_provider
        and args = no_sources_options]
    by blast
  ultimately show ?thesis
    using c f by blast
qed

section \<open>The rows a scan returns\<close>

text \<open>
  Whenever \<^verbatim>\<open>run_scan_for_modes\<close> returns, its rows are those of the ranking stage,
  to which the orders stage only adds fields: they are sorted descending by the rank key
  (a triple of finite floats) and there are at most \<open>max(1, top_n)\<close> of them.
\<close>

lemma rank_rows_Inr:
  assumes "rank_rows bi opts rows = Inr out"
  shows "sorted_wrt (\<lambda>a b. rank_key bi opts b \<le> rank_key bi opts a) out"
    and "length out \<le> nat (max 1 (top_n opts))"
proof -
  obtain rows2 where out: "out = take (nat (max 1 (top_n opts))) rows2"
    and rows2: "rows2 = sort_rows bi opts rows \<or> (\<exists>ys. rows2 = sort_rows bi opts ys)"
    using assms
    by (auto simp: rank_rows_def unique_rows_def bind_err_def Let_def split: sum.splits if_splits)
  from rows2 have "sorted_wrt (\<lambda>a b. rank_key bi opts b \<le> rank_key bi opts a) rows2"
    using sorted_sort_rows by auto
  then show "sorted_wrt (\<lambda>a b. rank_key bi opts b \<le> rank_key bi opts a) out"
    unfolding out by (rule sorted_wrt_take)
  show "length out \<le> nat (max 1 (top_n opts))"
    by (simp add: out)
qed

lemma rank_key_add_orders:
  assumes "add_orders bi prov r = Inr r'"
  shows "rank_key bi opts r' = rank_key bi opts r"
  using assms
  by (auto simp: add_orders_def bind_err_def rank_key_def get_update Let_def
      split: sum.splits if_splits)

lemma map_err_add_orders:
  assumes "map_err (add_orders bi prov) rows = Inr rows'"
  shows "map (rank_key bi opts) rows' = map (rank_key bi opts) rows"
  using assms
proof (induction rows arbitrary: rows')
  case Nil
  then show ?case by simp
next
  case (Cons r rs)
  then show ?case
    by (auto simp: rank_key_add_orders split: sum.splits)
qed

lemma run_scan_for_modes_rows:
  assumes "run_scan_for_modes bi prov args = Inr (rows, debug)"
  shows "sorted_wrt (\<ge>) (map (rank_key bi (scan_options bi args)) rows) \<and>
         length rows \<le> nat (max 1 (top_n args))"
proof -
  define opts where "opts = scan_options bi args"
  have top: "top_n opts = top_n args"
    by (simp add: opts_def scan_options_def)
  from assms consider "rows = []"
    | ranked qualifying where "rank_rows bi opts qualifying = Inr ranked"
        and "rows = ranked \<or> map_err (add_orders bi prov) ranked = Inr rows"
    unfolding run_scan_for_modes_def opts_def [symmetric]
    by (auto simp: bind_err_def Let_def split: sum.splits if_splits)
  then show ?thesis
  proof cases
    case 1
    then show ?thesis by simp
  next
    case 2
    have "map (rank_key bi opts) rows = map (rank_key bi opts) ranked"
      using 2(2) map_err_add_orders by blast
    moreover have "sorted_wrt (\<ge>) (map (rank_key bi opts) ranked)"
      using rank_rows_Inr(1) [OF 2(1)] by (simp add: sorted_wrt_map)
    moreover have "length ranked \<le> nat (max 1 (top_n opts))"
      by (rule rank_rows_Inr(2) [OF 2(1)])
    moreover have "length rows = length ranked"
      using calculation(1) by (metis length_map)
    ultimately show ?thesis
      by (simp add: opts_def [symmetric] top)
  qed
qed

end
